theory Spec2Isabelle
  imports Complex_Main
begin

section \<open>Numbers of the program\<close>

text \<open>
  The library computes with numpy's \<^verbatim>\<open>float64\<close>.  A value is modelled as a
  finite real number, or one of the three special values that numpy produces
  instead of raising: plus infinity, minus infinity and NaN.  The operations
  \<open>+\<close>, \<open>-\<close>, \<open>*\<close>, \<open>/\<close> on finite values are the exact operations of the reals
  (no rounding, no overflow); on the special values they follow IEEE 754 as
  numpy implements it (a RuntimeWarning at most, never an exception).  \<open>Fin 0\<close>
  is the positive zero.  Where the magnitude of a result or the sign of a zero
  decides what the program does (in \<open>RVGazimuth_man\<close>: \<^verbatim>\<open>round\<close> and \<^verbatim>\<open>**\<close>
  raise on overflow, \<^verbatim>\<open>np.arctan2\<close> reads the sign of a zero), the model uses
  the overflow-checked operations and the signed arctangent defined below.
\<close>

datatype npfloat = Fin real | PInf | NInf | NaN

instantiation npfloat :: "{uminus, plus, minus, times, inverse, abs}"
begin

fun uminus_npfloat :: "npfloat \<Rightarrow> npfloat" where
  "uminus_npfloat (Fin x) = Fin (- x)"
| "uminus_npfloat PInf = NInf"
| "uminus_npfloat NInf = PInf"
| "uminus_npfloat NaN = NaN"

fun plus_npfloat :: "npfloat \<Rightarrow> npfloat \<Rightarrow> npfloat" where
  "plus_npfloat (Fin x) (Fin y) = Fin (x + y)"
| "plus_npfloat NaN b = NaN"
| "plus_npfloat a NaN = NaN"
| "plus_npfloat PInf NInf = NaN"
| "plus_npfloat NInf PInf = NaN"
| "plus_npfloat PInf b = PInf"
| "plus_npfloat a PInf = PInf"
| "plus_npfloat NInf b = NInf"
| "plus_npfloat a NInf = NInf"

definition minus_npfloat :: "npfloat \<Rightarrow> npfloat \<Rightarrow> npfloat" where
  "minus_npfloat a b = a + (- b)"

fun times_npfloat :: "npfloat \<Rightarrow> npfloat \<Rightarrow> npfloat" where
  "times_npfloat (Fin x) (Fin y) = Fin (x * y)"
| "times_npfloat NaN b = NaN"
| "times_npfloat a NaN = NaN"
| "times_npfloat PInf PInf = PInf"
| "times_npfloat PInf NInf = NInf"
| "times_npfloat NInf PInf = NInf"
| "times_npfloat NInf NInf = PInf"
| "times_npfloat PInf (Fin y) = (if y = 0 then NaN else if 0 < y then PInf else NInf)"
| "times_npfloat NInf (Fin y) = (if y = 0 then NaN else if 0 < y then NInf else PInf)"
| "times_npfloat (Fin x) PInf = (if x = 0 then NaN else if 0 < x then PInf else NInf)"
| "times_npfloat (Fin x) NInf = (if x = 0 then NaN else if 0 < x then NInf else PInf)"

fun divide_npfloat :: "npfloat \<Rightarrow> npfloat \<Rightarrow> npfloat" where
  "divide_npfloat (Fin x) (Fin y) =
     (if y = 0 then (if x = 0 then NaN else if 0 < x then PInf else NInf)
      else Fin (x / y))"
| "divide_npfloat NaN b = NaN"
| "divide_npfloat a NaN = NaN"
| "divide_npfloat (Fin x) PInf = Fin 0"
| "divide_npfloat (Fin x) NInf = Fin 0"
| "divide_npfloat PInf (Fin y) = (if 0 \<le> y then PInf else NInf)"
| "divide_npfloat NInf (Fin y) = (if 0 \<le> y then NInf else PInf)"
| "divide_npfloat PInf b = NaN"
| "divide_npfloat NInf b = NaN"

definition inverse_npfloat :: "npfloat \<Rightarrow> npfloat" where
  "inverse_npfloat a = divide (Fin 1) a"

fun abs_npfloat :: "npfloat \<Rightarrow> npfloat" where
  "abs_npfloat (Fin x) = Fin \<bar>x\<bar>"
| "abs_npfloat PInf = PInf"
| "abs_npfloat NInf = PInf"
| "abs_npfloat NaN = NaN"

instance ..

end

text \<open>\<^verbatim>\<open>a > b\<close> on floats: every comparison with NaN is false.\<close>

fun np_greater :: "npfloat \<Rightarrow> npfloat \<Rightarrow> bool" where
  "np_greater (Fin x) (Fin y) = (y < x)"
| "np_greater NaN b = False"
| "np_greater a NaN = False"
| "np_greater PInf PInf = False"
| "np_greater PInf b = True"
| "np_greater NInf b = False"
| "np_greater a NInf = True"
| "np_greater a PInf = False"

text \<open>\<^verbatim>\<open>np.sqrt\<close>: NaN on a negative argument.\<close>

fun np_sqrt :: "npfloat \<Rightarrow> npfloat" where
  "np_sqrt (Fin x) = (if x < 0 then NaN else Fin (sqrt x))"
| "np_sqrt PInf = PInf"
| "np_sqrt NInf = NaN"
| "np_sqrt NaN = NaN"

text \<open>\<^verbatim>\<open>np.sin\<close>, \<^verbatim>\<open>np.cos\<close>: NaN on an infinite argument.\<close>

fun np_sin :: "npfloat \<Rightarrow> npfloat" where
  "np_sin (Fin x) = Fin (sin x)"
| "np_sin a = NaN"

fun np_cos :: "npfloat \<Rightarrow> npfloat" where
  "np_cos (Fin x) = Fin (cos x)"
| "np_cos a = NaN"

text \<open>
  \<^verbatim>\<open>np.tan\<close>.  Where the cosine is exactly zero the tangent has a pole; the
  model gives the quotient of sine and cosine there, an infinity.
\<close>

fun np_tan :: "npfloat \<Rightarrow> npfloat" where
  "np_tan (Fin x) = Fin (sin x) / Fin (cos x)"
| "np_tan a = NaN"

text \<open>
  The two-argument arctangent on the reals, \<open>atan2 y x\<close>: the angle in
  \<open>(-\<pi>, \<pi>]\<close> of the point \<open>(x, y)\<close>, and 0 at the origin.
\<close>

definition atan2 :: "real \<Rightarrow> real \<Rightarrow> real" where
  "atan2 y x =
     (if 0 < x then arctan (y / x)
      else if x < 0 then (if 0 \<le> y then arctan (y / x) + pi else arctan (y / x) - pi)
      else if 0 < y then pi / 2
      else if y < 0 then - (pi / 2)
      else 0)"

text \<open>
  \<^verbatim>\<open>np.arctan2(y, x)\<close> on arguments that are not negative zeros, with the
  IEEE values at the infinities.
\<close>

fun np_arctan2 :: "npfloat \<Rightarrow> npfloat \<Rightarrow> npfloat" where
  "np_arctan2 (Fin y) (Fin x) = Fin (atan2 y x)"
| "np_arctan2 NaN b = NaN"
| "np_arctan2 a NaN = NaN"
| "np_arctan2 (Fin y) PInf = Fin 0"
| "np_arctan2 (Fin y) NInf = (if 0 \<le> y then Fin pi else Fin (- pi))"
| "np_arctan2 PInf (Fin x) = Fin (pi / 2)"
| "np_arctan2 NInf (Fin x) = Fin (- (pi / 2))"
| "np_arctan2 PInf PInf = Fin (pi / 4)"
| "np_arctan2 PInf NInf = Fin (3 * pi / 4)"
| "np_arctan2 NInf PInf = Fin (- (pi / 4))"
| "np_arctan2 NInf NInf = Fin (- (3 * pi / 4))"

text \<open>
  Overflow.  The largest finite \<^verbatim>\<open>float64\<close> is \<open>2^1024 - 2^971\<close>; a result whose
  magnitude reaches \<open>2^1024 - 2^970\<close>, half a unit in the last place above it,
  is rounded to an infinity.  \<open>ovf\<close> does that to an exact result (rounding
  below the bound is not modelled).
\<close>

definition overflow_bound :: real where
  "overflow_bound = 2 ^ 1024 - 2 ^ 970"

fun ovf :: "npfloat \<Rightarrow> npfloat" where
  "ovf (Fin x) =
     (if overflow_bound \<le> x then PInf else if x \<le> - overflow_bound then NInf else Fin x)"
| "ovf PInf = PInf"
| "ovf NInf = NInf"
| "ovf NaN = NaN"

text \<open>
  The operations of \<^verbatim>\<open>float64\<close> and of Python's \<^verbatim>\<open>float\<close> that overflow to an
  infinity without raising: addition, subtraction, multiplication, division.
\<close>

definition f64_add :: "npfloat \<Rightarrow> npfloat \<Rightarrow> npfloat" where
  "f64_add a b = ovf (a + b)"

definition f64_sub :: "npfloat \<Rightarrow> npfloat \<Rightarrow> npfloat" where
  "f64_sub a b = ovf (a - b)"

definition f64_mul :: "npfloat \<Rightarrow> npfloat \<Rightarrow> npfloat" where
  "f64_mul a b = ovf (a * b)"

definition f64_div :: "npfloat \<Rightarrow> npfloat \<Rightarrow> npfloat" where
  "f64_div a b = ovf (a / b)"

text \<open>\<^verbatim>\<open>x**2\<close> on a numpy \<^verbatim>\<open>float64\<close>: an infinity on overflow.\<close>

fun np_square :: "npfloat \<Rightarrow> npfloat" where
  "np_square (Fin x) = ovf (Fin (x\<^sup>2))"
| "np_square PInf = PInf"
| "np_square NInf = PInf"
| "np_square NaN = NaN"

text \<open>
  The arctangent with the sign of a zero.  \<^verbatim>\<open>np.arctan2\<close> tells the negative
  zero from the positive one: with \<open>y\<close> a zero and \<open>x\<close> negative or a negative
  zero, the result is \<open>\<pi>\<close> for \<open>y = +0.0\<close> and \<open>-\<pi>\<close> for \<open>y = -0.0\<close>.  A finite
  value being a real number here, the sign of a zero is passed beside it: \<open>yn\<close>
  says that \<open>y\<close>, if it is zero, is the negative zero, and \<open>xn\<close> the same of
  \<open>x\<close>.  Nothing else in \<open>RVGazimuth_man\<close> depends on the sign of a zero.
\<close>

definition atan2_signed :: "bool \<Rightarrow> bool \<Rightarrow> real \<Rightarrow> real \<Rightarrow> real" where
  "atan2_signed yn xn y x =
     (if y = 0 \<and> (x < 0 \<or> (x = 0 \<and> xn)) then (if yn then - pi else pi)
      else atan2 y x)"

fun np_arctan2_signed :: "bool \<Rightarrow> bool \<Rightarrow> npfloat \<Rightarrow> npfloat \<Rightarrow> npfloat" where
  "np_arctan2_signed yn xn (Fin y) (Fin x) = Fin (atan2_signed yn xn y x)"
| "np_arctan2_signed yn xn NaN b = NaN"
| "np_arctan2_signed yn xn a NaN = NaN"
| "np_arctan2_signed yn xn (Fin y) PInf = Fin 0"
| "np_arctan2_signed yn xn (Fin y) NInf =
     (if 0 < y \<or> (y = 0 \<and> \<not> yn) then Fin pi else Fin (- pi))"
| "np_arctan2_signed yn xn PInf (Fin x) = Fin (pi / 2)"
| "np_arctan2_signed yn xn NInf (Fin x) = Fin (- (pi / 2))"
| "np_arctan2_signed yn xn PInf PInf = Fin (pi / 4)"
| "np_arctan2_signed yn xn PInf NInf = Fin (3 * pi / 4)"
| "np_arctan2_signed yn xn NInf PInf = Fin (- (pi / 4))"
| "np_arctan2_signed yn xn NInf NInf = Fin (- (3 * pi / 4))"

section \<open>Errors, vectors and matrices\<close>

text \<open>
  \<open>IndexError\<close>, \<open>ValueError\<close> and \<open>OverflowError\<close> are the exceptions the
  source can raise (an index beyond a short array, a shape mismatch in \<^verbatim>\<open>@\<close>,
  \<^verbatim>\<open>round\<close> of an infinity).  \<open>SingularTransform\<close> and \<open>InvalidInput\<close> are the
  error kinds of the specification's taxonomy.
\<close>

datatype error = IndexError | ValueError | OverflowError | SingularTransform | InvalidInput

type_synonym vec = "npfloat list"
type_synonym mat = "npfloat list list"

definition err_bind :: "error + 'a \<Rightarrow> ('a \<Rightarrow> error + 'b) \<Rightarrow> error + 'b" where
  "err_bind r f = (case r of Inl e \<Rightarrow> Inl e | Inr x \<Rightarrow> f x)"

text \<open>\<^verbatim>\<open>x[i]\<close> on a one-dimensional array, for a non-negative index.\<close>

definition index :: "vec \<Rightarrow> nat \<Rightarrow> error + npfloat" where
  "index x i = (if i < length x then Inr (x ! i) else Inl IndexError)"

text \<open>\<^verbatim>\<open>x[lo:hi]\<close>: a slice never raises.\<close>

definition slice :: "vec \<Rightarrow> nat \<Rightarrow> nat \<Rightarrow> vec" where
  "slice x lo hi = take (hi - lo) (drop lo x)"

text \<open>The sum of products of a row and a vector of the same length.\<close>

fun dot :: "vec \<Rightarrow> vec \<Rightarrow> npfloat" where
  "dot (a # as) (b # bs) = a * b + dot as bs"
| "dot as bs = Fin 0"

fun column :: "mat \<Rightarrow> nat \<Rightarrow> vec" where
  "column B j = map (\<lambda>row. row ! j) B"

text \<open>
  \<^verbatim>\<open>A @ v\<close> for a matrix and a one-dimensional array: a shape mismatch is a
  \<open>ValueError\<close>.
\<close>

definition matvec :: "mat \<Rightarrow> vec \<Rightarrow> error + vec" where
  "matvec A v =
     (if list_all (\<lambda>row. length row = length v) A
      then Inr (map (\<lambda>row. dot row v) A) else Inl ValueError)"

text \<open>
  \<^verbatim>\<open>A @ B\<close> for two matrices.  Every use in the library multiplies the 3x3
  arrays built by \<open>Rotx\<close>, \<open>Roty\<close>, \<open>Rotz\<close> and \<open>Smat\<close>, so the shapes agree.
\<close>

definition matmul :: "mat \<Rightarrow> mat \<Rightarrow> mat" where
  "matmul A B = map (\<lambda>row. map (\<lambda>j. dot row (column B j)) [0 ..< length (hd B)]) A"

section \<open>kinematics.py\<close>

definition rad2pipi :: "npfloat \<Rightarrow> npfloat" where
  "rad2pipi angle = np_arctan2 (np_sin angle) (np_cos angle)"

definition Rotx :: "npfloat \<Rightarrow> mat" where
  "Rotx angle =
     [[Fin 1, Fin 0, Fin 0],
      [Fin 0, np_cos angle, - np_sin angle],
      [Fin 0, np_sin angle, np_cos angle]]"

definition Roty :: "npfloat \<Rightarrow> mat" where
  "Roty angle =
     [[np_cos angle, Fin 0, np_sin angle],
      [Fin 0, Fin 1, Fin 0],
      [- np_sin angle, Fin 0, np_cos angle]]"

definition Rotz :: "npfloat \<Rightarrow> mat" where
  "Rotz angle =
     [[np_cos angle, - np_sin angle, Fin 0],
      [np_sin angle, np_cos angle, Fin 0],
      [Fin 0, Fin 0, Fin 1]]"

definition Rotzyx :: "vec \<Rightarrow> error + mat" where
  "Rotzyx angles =
     err_bind (index angles 2) (\<lambda>a2.
     err_bind (index angles 1) (\<lambda>a1.
     err_bind (index angles 0) (\<lambda>a0.
       Inr (matmul (matmul (Rotz a2) (Roty a1)) (Rotx a0)))))"

definition Smat :: "vec \<Rightarrow> error + mat" where
  "Smat x =
     err_bind (index x 2) (\<lambda>x2.
     err_bind (index x 1) (\<lambda>x1.
     err_bind (index x 0) (\<lambda>x0.
       Inr [[Fin 0, - x2, x1],
            [x2, Fin 0, - x0],
            [- x1, x0, Fin 0]])))"

definition dot_eta3 :: "npfloat \<Rightarrow> vec \<Rightarrow> error + vec" where
  "dot_eta3 psi nu = matvec (Rotz psi) nu"

definition dot_eta6 :: "vec \<Rightarrow> vec \<Rightarrow> error + vec" where
  "dot_eta6 eta nu =
     err_bind (Rotzyx (slice eta 3 6)) (\<lambda>Rzyx.
     err_bind (index eta 3) (\<lambda>phi.
     err_bind (index eta 4) (\<lambda>theta.
       let T = [[Fin 1, np_sin phi * np_tan theta, np_cos phi * np_tan theta],
                [Fin 0, np_cos phi, - np_sin phi],
                [Fin 0, np_sin phi / np_cos theta, np_cos phi / np_cos theta]]
       in err_bind (matvec Rzyx (slice nu 0 3)) (\<lambda>lin.
          err_bind (matvec T (slice nu 3 6)) (\<lambda>ang.
            Inr (lin @ ang @ replicate (length eta - 6) (Fin 0)))))))"

definition Rot_planar :: "npfloat \<Rightarrow> mat" where
  "Rot_planar angle =
     [[np_cos angle, - np_sin angle],
      [np_sin angle, np_cos angle]]"

definition dot_eta4 :: "npfloat \<Rightarrow> vec \<Rightarrow> error + vec" where
  "dot_eta4 psi nu =
     (let R = [[np_cos psi, - np_sin psi, Fin 0, Fin 0],
               [np_sin psi, np_cos psi, Fin 0, Fin 0],
               [Fin 0, Fin 0, Fin 1, Fin 0],
               [Fin 0, Fin 0, Fin 0, Fin 1]]
      in matvec R nu)"

section \<open>thrusters.py\<close>

text \<open>\<^verbatim>\<open>x[[i, j, k]]\<close>: selection by a list of non-negative indices.\<close>

definition fancy_index :: "vec \<Rightarrow> nat list \<Rightarrow> error + vec" where
  "fancy_index x js =
     (if list_all (\<lambda>j. j < length x) js then Inr (map (\<lambda>j. x ! j) js) else Inl IndexError)"

definition forceAzi3 :: "npfloat \<Rightarrow> npfloat \<Rightarrow> vec \<Rightarrow> error + vec" where
  "forceAzi3 force azi loc =
     (let eps1 = [Fin 1, Fin 0, Fin 0] in
      err_bind (Smat loc) (\<lambda>S.
        let R = Rotz azi in
        err_bind (matvec R eps1) (\<lambda>lin.
        err_bind (matvec (matmul S R) eps1) (\<lambda>mom.
          let tau6 = map (\<lambda>t. force * t) (lin @ mom)
          in fancy_index tau6 [0, 1, 5]))))"

definition forceAzi6 :: "npfloat \<Rightarrow> npfloat \<Rightarrow> vec \<Rightarrow> error + vec" where
  "forceAzi6 force azi loc =
     (let eps1 = [Fin 1, Fin 0, Fin 0] in
      err_bind (Smat loc) (\<lambda>S.
        let R = Rotz azi in
        err_bind (matvec R eps1) (\<lambda>lin.
        err_bind (matvec (matmul S R) eps1) (\<lambda>mom.
          Inr (map (\<lambda>t. force * t) (lin @ mom))))))"

text \<open>
  Python's \<^verbatim>\<open>round(x)\<close> with one argument: the nearest integer, a tie going to
  the even one; an infinity raises \<open>OverflowError\<close> and NaN raises \<open>ValueError\<close>.
\<close>

definition round_half_even :: "real \<Rightarrow> int" where
  "round_half_even x =
     (let f = \<lfloor>x\<rfloor>; d = x - of_int f
      in if d < 1 / 2 then f
         else if 1 / 2 < d then f + 1
         else if even f then f else f + 1)"

fun py_round :: "npfloat \<Rightarrow> error + int" where
  "py_round (Fin x) = Inr (round_half_even x)"
| "py_round PInf = Inl OverflowError"
| "py_round NInf = Inl OverflowError"
| "py_round NaN = Inl ValueError"

text \<open>\<^verbatim>\<open>str(n)\<close> of an integer: the decimal digits, after a minus sign if negative.\<close>

definition digit_char :: "nat \<Rightarrow> char" where
  "digit_char d = ''0123456789'' ! d"

function str_nat :: "nat \<Rightarrow> string" where
  "str_nat n = (if n < 10 then [digit_char n] else str_nat (n div 10) @ [digit_char (n mod 10)])"
  by pat_completeness auto
termination
  by (relation "measure (\<lambda>n. n)") auto

declare str_nat.simps [simp del]

definition str_int :: "int \<Rightarrow> string" where
  "str_int i = (if i < 0 then CHR ''-'' # str_nat (nat (- i)) else str_nat (nat i))"

text \<open>
  The line that \<open>RVGazimuth_man\<close> prints, for the rounded angle of attack in
  degrees.
\<close>

definition aoa_warning :: "int \<Rightarrow> string" where
  "aoa_warning n =
     ''Warning (thrusters.RVGazimuth_man): Angle of attack=''
     @ str_int n
     @ ''deg, assumed validity range is +/- 30deg''"

text \<open>
  \<^verbatim>\<open>x**2\<close> on a Python \<^verbatim>\<open>float\<close>, which is what \<open>u\<close>, \<open>v\<close> and \<open>revs\<close> are when
  the caller passes plain numbers: \<open>OverflowError\<close> where the square overflows.
\<close>

fun py_square :: "npfloat \<Rightarrow> error + npfloat" where
  "py_square (Fin x) = (if overflow_bound \<le> x\<^sup>2 then Inl OverflowError else Inr (Fin (x\<^sup>2)))"
| "py_square PInf = Inr PInf"
| "py_square NInf = Inr PInf"
| "py_square NaN = Inr NaN"

text \<open>
  \<open>RVGazimuth_man\<close> returns the lines it printed together with \<open>(Fx, Fy)\<close>.
  \<open>RVGazimuth_man_signed\<close> is the function with the sign of a zero \<open>u\<close> and of a
  zero \<open>v\<close> given (\<open>u_neg\<close>: \<open>u\<close>, if zero, is \<^verbatim>\<open>-0.0\<close>); \<open>RVGazimuth_man\<close> is the
  function on inputs that are not negative zeros.
\<close>

definition RVGazimuth_man_signed ::
  "bool \<Rightarrow> bool \<Rightarrow> npfloat \<Rightarrow> npfloat \<Rightarrow> npfloat \<Rightarrow> npfloat
     \<Rightarrow> error + (string list \<times> npfloat \<times> npfloat)" where
  "RVGazimuth_man_signed u_neg v_neg u v angle revs =
     err_bind (py_square u) (\<lambda>u2.
     err_bind (py_square v) (\<lambda>v2.
       let V = np_sqrt (f64_add u2 v2);
           inflow_angle = np_arctan2_signed v_neg u_neg v u;
           aoa = f64_add (- inflow_angle) angle;
           aoa_max = f64_div (f64_mul (Fin 35) (Fin pi)) (Fin 180)
       in err_bind
            (if np_greater \<bar>aoa\<bar> aoa_max
             then err_bind (py_round (f64_div (f64_mul aoa (Fin 180)) (Fin pi)))
                    (\<lambda>n. Inr [aoa_warning n])
             else Inr [])
            (\<lambda>printed.
               let Cd = f64_add (Fin 0.3) (f64_mul \<bar>aoa\<bar> (Fin 0.3));
                   Cl = f64_mul (Fin 0.5) (np_sin (f64_mul (Fin 2) aoa));
                   A = Fin 9;
                   rho = Fin 1000;
                   Fdrag = f64_mul (f64_mul (f64_mul (f64_mul (Fin 0.5) rho) A) Cd) (np_square V);
                   Flift = f64_mul (f64_mul (f64_mul (f64_mul (Fin 0.5) rho) A) Cl) (np_square V);
                   Ffoilx = f64_add (f64_mul (- Fdrag) (np_cos aoa)) (f64_mul Flift (np_sin aoa));
                   Ffoily = f64_add (f64_mul Flift (np_cos aoa)) (f64_mul Fdrag (np_sin aoa));
                   Ct = f64_mul (Fin 2.2) (Fin 1)
               in err_bind (py_square revs) (\<lambda>revs2.
                    let Fthrust = f64_mul Ct revs2;
                        Fx = f64_sub (f64_add (f64_mul Fthrust (np_cos angle))
                                              (f64_mul Ffoilx (np_cos angle)))
                                     (f64_mul Ffoily (np_sin angle));
                        Fy = f64_add (f64_add (f64_mul Fthrust (np_sin angle))
                                              (f64_mul Ffoilx (np_sin angle)))
                                     (f64_mul Ffoily (np_cos angle))
                    in Inr (printed, Fx, Fy)))))"

definition RVGazimuth_man ::
  "npfloat \<Rightarrow> npfloat \<Rightarrow> npfloat \<Rightarrow> npfloat \<Rightarrow> error + (string list \<times> npfloat \<times> npfloat)" where
  "RVGazimuth_man u v angle revs = RVGazimuth_man_signed False False u v angle revs"

section \<open>Notions of the specification\<close>

text \<open>
  The surge and sway force as the specification's algorithm gives it on real
  numbers, for a given inflow angle (section 4.4, steps 1, 3 and 5 to 9:
  everything but the arctangent of step 2 and the validity check).
\<close>

definition RVGazimuth_forces :: "real \<Rightarrow> real \<Rightarrow> real \<Rightarrow> real \<Rightarrow> real \<Rightarrow> real \<times> real" where
  "RVGazimuth_forces inflow_angle u v angle revs =
     (let V = sqrt (u\<^sup>2 + v\<^sup>2);
          aoa = angle - inflow_angle;
          Cd = 0.3 + 0.3 * \<bar>aoa\<bar>;
          Cl = 0.5 * sin (2 * aoa);
          A = 9;
          rho = 1000;
          Fdrag = 0.5 * rho * A * Cd * V\<^sup>2;
          Flift = 0.5 * rho * A * Cl * V\<^sup>2;
          Ffoilx = - Fdrag * cos aoa + Flift * sin aoa;
          Ffoily = Flift * cos aoa + Fdrag * sin aoa;
          Ct = 2.2;
          Fthrust = Ct * revs\<^sup>2;
          Fx = Fthrust * cos angle + Ffoilx * cos angle - Ffoily * sin angle;
          Fy = Fthrust * sin angle + Ffoilx * sin angle + Ffoily * cos angle
      in (Fx, Fy))"

text \<open>The 3x3 identity, the transpose and the determinant of a 3x3 matrix.\<close>

definition eye3 :: mat where
  "eye3 = [[Fin 1, Fin 0, Fin 0], [Fin 0, Fin 1, Fin 0], [Fin 0, Fin 0, Fin 1]]"

definition mat_T :: "mat \<Rightarrow> mat" where
  "mat_T A = map (column A) [0 ..< length (hd A)]"

definition det3 :: "mat \<Rightarrow> npfloat" where
  "det3 A =
     A ! 0 ! 0 * (A ! 1 ! 1 * A ! 2 ! 2 - A ! 1 ! 2 * A ! 2 ! 1)
     - A ! 0 ! 1 * (A ! 1 ! 0 * A ! 2 ! 2 - A ! 1 ! 2 * A ! 2 ! 0)
     + A ! 0 ! 2 * (A ! 1 ! 0 * A ! 2 ! 1 - A ! 1 ! 1 * A ! 2 ! 0)"

text \<open>Orthonormal: the transpose is a left and a right inverse.\<close>

definition orthonormal :: "mat \<Rightarrow> bool" where
  "orthonormal R = (matmul (mat_T R) R = eye3 \<and> matmul R (mat_T R) = eye3)"

text \<open>The cross product of two real 3-vectors.\<close>

definition cross3 :: "real list \<Rightarrow> real list \<Rightarrow> real list" where
  "cross3 x y =
     [x ! 1 * y ! 2 - x ! 2 * y ! 1,
      x ! 2 * y ! 0 - x ! 0 * y ! 2,
      x ! 0 * y ! 1 - x ! 1 * y ! 0]"

text \<open>
  The 3x3 matrix of finite entries \<open>f i j\<close>, and the matrices of that form.
\<close>

definition fin3 :: "(nat \<Rightarrow> nat \<Rightarrow> real) \<Rightarrow> mat" where
  "fin3 f = map (\<lambda>i. map (\<lambda>j. Fin (f i j)) [0, 1, 2]) [0, 1, 2]"

definition finite3 :: "mat \<Rightarrow> bool" where
  "finite3 A = (\<exists>f. A = fin3 f)"

section \<open>Arithmetic on finite values\<close>

lemma np_add_zero [simp]: "a + Fin 0 = a" "Fin 0 + a = a"
  by (cases a; simp)+

lemma np_minus_Fin [simp]: "Fin x - Fin y = Fin (x - y)"
  by (simp add: minus_npfloat_def)

section \<open>The angle wrap\<close>

lemma atan2_range: "- pi < atan2 y x \<and> atan2 y x \<le> pi"
proof -
  have b: "- (pi / 2) < arctan (y / x)" "arctan (y / x) < pi / 2"
    using arctan_lbound[of "y / x"] arctan_ubound[of "y / x"] by blast+
  have neg: "x < 0 \<Longrightarrow> 0 \<le> y \<Longrightarrow> arctan (y / x) \<le> 0"
    by (simp add: divide_nonneg_neg arctan_le_zero_iff)
  have pos: "x < 0 \<Longrightarrow> y < 0 \<Longrightarrow> 0 < arctan (y / x)"
    by (simp add: divide_neg_neg zero_less_arctan_iff)
  show ?thesis
    using b neg pos pi_gt_zero by (auto simp: atan2_def)
qed

lemma cos_nonpos_upper: "pi / 2 \<le> a \<Longrightarrow> a \<le> pi \<Longrightarrow> cos a \<le> 0"
  using cos_monotone_0_pi_le[of "pi / 2" a] by simp

lemma cos_neg_upper: "pi / 2 < a \<Longrightarrow> a \<le> pi \<Longrightarrow> cos a < 0"
  using cos_monotone_0_pi[of "pi / 2" a] by simp

lemma sin_neg_lower: "- pi < a \<Longrightarrow> a < 0 \<Longrightarrow> sin a < 0"
  using sin_gt_zero[of "- a"] by simp

lemma cos_pos_range:
  assumes "- pi < a" "a \<le> pi" "0 < cos a"
  shows "- (pi / 2) < a \<and> a < pi / 2"
proof -
  have "\<not> pi / 2 \<le> a"
    using cos_nonpos_upper[of a] assms by linarith
  moreover have "\<not> a \<le> - (pi / 2)"
    using cos_nonpos_upper[of "- a"] assms by auto
  ultimately show ?thesis by linarith
qed

lemma cos_neg_range:
  assumes "- pi < a" "a \<le> pi" "cos a < 0"
  shows "(0 \<le> sin a \<longrightarrow> pi / 2 < a) \<and> (sin a < 0 \<longrightarrow> a < - (pi / 2))"
proof -
  have mid: "\<not> (- (pi / 2) \<le> a \<and> a \<le> pi / 2)"
    using cos_ge_zero[of a] assms by linarith
  have lo: "a < - (pi / 2) \<Longrightarrow> sin a < 0"
    using sin_neg_lower[of a] assms pi_gt_zero by linarith
  have hi: "pi / 2 < a \<Longrightarrow> 0 \<le> sin a"
    using sin_ge_zero[of a] assms pi_gt_zero by linarith
  show ?thesis using mid lo hi by linarith
qed

lemma cos_zero_range:
  assumes "- pi < a" "a \<le> pi" "cos a = 0"
  shows "(0 < sin a \<longrightarrow> a = pi / 2) \<and> (sin a < 0 \<longrightarrow> a = - (pi / 2)) \<and> sin a \<noteq> 0"
proof -
  have "\<not> (- (pi / 2) < a \<and> a < pi / 2)"
    using cos_gt_zero_pi[of a] assms by linarith
  moreover have "\<not> pi / 2 < a"
    using cos_neg_upper[of a] assms by linarith
  moreover have "\<not> a < - (pi / 2)"
    using cos_neg_upper[of "- a"] assms by auto
  ultimately have "a = pi / 2 \<or> a = - (pi / 2)" by linarith
  then show ?thesis
  proof
    assume h: "a = pi / 2"
    show ?thesis unfolding h by simp
  next
    assume h: "a = - (pi / 2)"
    show ?thesis unfolding h by simp
  qed
qed

lemma atan2_sin_cos:
  assumes "- pi < a" "a \<le> pi"
  shows "atan2 (sin a) (cos a) = a"
proof -
  consider "0 < cos a" | "cos a < 0" "0 \<le> sin a" | "cos a < 0" "sin a < 0" | "cos a = 0"
    by linarith
  then show ?thesis
  proof cases
    case 1
    then have "arctan (tan a) = a"
      using cos_pos_range[OF assms] by (simp add: arctan_tan)
    with 1 show ?thesis by (simp add: atan2_def tan_def)
  next
    case 2
    then have r: "pi / 2 < a" using cos_neg_range[OF assms] by simp
    have "arctan (tan (a - pi)) = a - pi"
      using r assms by (intro arctan_tan) linarith+
    moreover have "tan (a - pi) = tan a"
      using tan_periodic_pi[of "a - pi"] by simp
    ultimately show ?thesis using 2 by (simp add: atan2_def tan_def)
  next
    case 3
    then have r: "a < - (pi / 2)" using cos_neg_range[OF assms] by simp
    have "arctan (tan (a + pi)) = a + pi"
      using r assms by (intro arctan_tan) linarith+
    then show ?thesis using 3 by (simp add: atan2_def tan_def)
  next
    case 4
    then show ?thesis
      using cos_zero_range[OF assms] by (auto simp: atan2_def)
  qed
qed

lemma atan2_sin_cos_wraps:
  "sin (atan2 (sin a) (cos a)) = sin a \<and> cos (atan2 (sin a) (cos a)) = cos a"
proof -
  obtain b where b: "- pi < b" "b \<le> pi" "sin b = sin a" "cos b = cos a"
    using sincos_principal_value[of a] by blast
  have "atan2 (sin b) (cos b) = b"
    using b(1,2) by (rule atan2_sin_cos)
  then show ?thesis using b by simp
qed

lemma rad2pipi_Fin: "rad2pipi (Fin a) = Fin (atan2 (sin a) (cos a))"
  by (simp add: rad2pipi_def)

text \<open>
  The wrap in exact arithmetic.  On every finite angle \<open>a\<close>, \<open>rad2pipi\<close> returns
  \<open>atan2 (sin a) (cos a)\<close>; it lies in the half-open interval \<open>(-\<pi>, \<pi>]\<close>, it
  has the sine and the cosine of \<open>a\<close>, and wrapping it again changes nothing.
  This is a statement about real numbers.  In \<^verbatim>\<open>float64\<close> each of \<^verbatim>\<open>np.sin\<close>,
  \<^verbatim>\<open>np.cos\<close> and \<^verbatim>\<open>np.arctan2\<close> rounds, and whether a second application
  returns the same float under \<^verbatim>\<open>==\<close> depends on those roundings, which this
  embedding does not express.
\<close>

lemma rad2pipi_wraps:
  "\<exists>r. rad2pipi (Fin a) = Fin r \<and> r = atan2 (sin a) (cos a)
       \<and> - pi < r \<and> r \<le> pi \<and> sin r = sin a \<and> cos r = cos a
       \<and> rad2pipi (rad2pipi (Fin a)) = rad2pipi (Fin a)"
proof -
  let ?r = "atan2 (sin a) (cos a)"
  have range: "- pi < ?r" "?r \<le> pi" using atan2_range by blast+
  have "atan2 (sin ?r) (cos ?r) = ?r" using range by (rule atan2_sin_cos)
  then show ?thesis
    using range atan2_sin_cos_wraps[of a] by (simp add: rad2pipi_Fin)
qed

section \<open>The manoeuvring thruster model\<close>

lemma overflow_bound_big: "(2::real) ^ 1023 < overflow_bound"
  by (simp add: overflow_bound_def)

lemma ovf_Fin: "\<bar>x\<bar> < overflow_bound \<Longrightarrow> ovf (Fin x) = Fin x"
  by (auto simp: abs_less_iff)

lemma f64_add_Fin: "\<bar>x + y\<bar> < overflow_bound \<Longrightarrow> f64_add (Fin x) (Fin y) = Fin (x + y)"
  by (simp add: f64_add_def ovf_Fin del: ovf.simps)

lemma f64_sub_Fin: "\<bar>x - y\<bar> < overflow_bound \<Longrightarrow> f64_sub (Fin x) (Fin y) = Fin (x - y)"
  by (simp add: f64_sub_def ovf_Fin del: ovf.simps)

lemma f64_mul_Fin: "\<bar>x * y\<bar> < overflow_bound \<Longrightarrow> f64_mul (Fin x) (Fin y) = Fin (x * y)"
  by (simp add: f64_mul_def ovf_Fin del: ovf.simps)

lemma f64_div_Fin:
  "y \<noteq> 0 \<Longrightarrow> \<bar>x / y\<bar> < overflow_bound \<Longrightarrow> f64_div (Fin x) (Fin y) = Fin (x / y)"
  by (simp add: f64_div_def ovf_Fin del: ovf.simps)

lemma py_square_Fin: "x\<^sup>2 < overflow_bound \<Longrightarrow> py_square (Fin x) = Inr (Fin (x\<^sup>2))"
  by simp

lemma np_square_Fin: "x\<^sup>2 < overflow_bound \<Longrightarrow> np_square (Fin x) = Fin (x\<^sup>2)"
  by (simp add: ovf_Fin del: ovf.simps)

lemma abs_mult_le: "\<bar>x\<bar> \<le> a \<Longrightarrow> \<bar>y\<bar> \<le> b \<Longrightarrow> \<bar>x * y\<bar> \<le> a * (b::real)"
  unfolding abs_mult by (rule mult_mono) auto

lemma abs_add_le: "\<bar>x\<bar> \<le> a \<Longrightarrow> \<bar>y\<bar> \<le> b \<Longrightarrow> \<bar>x + y\<bar> \<le> a + (b::real)"
  by linarith

lemma abs_sub_le: "\<bar>x\<bar> \<le> a \<Longrightarrow> \<bar>y\<bar> \<le> b \<Longrightarrow> \<bar>x - y\<bar> \<le> a + (b::real)"
  by linarith

lemma atan2_signed_bound: "\<bar>atan2_signed yn xn y x\<bar> \<le> 4"
  using atan2_range[of y x] pi_less_4 pi_gt_zero by (auto simp: atan2_signed_def)

lemma below_overflow: "x \<le> 2 ^ 1023 \<Longrightarrow> x < overflow_bound"
  using overflow_bound_big by linarith

lemma mulB:
  assumes "\<bar>x\<bar> \<le> a" "\<bar>y\<bar> \<le> b" "a * b \<le> 2 ^ 1023"
  shows "f64_mul (Fin x) (Fin y) = Fin (x * y)"
proof -
  have "\<bar>x * y\<bar> \<le> a * b" using assms(1,2) by (rule abs_mult_le)
  then have "\<bar>x * y\<bar> < overflow_bound" using assms(3) below_overflow by fastforce
  then show ?thesis by (rule f64_mul_Fin)
qed

lemma addB:
  assumes "\<bar>x\<bar> \<le> a" "\<bar>y\<bar> \<le> b" "a + b \<le> 2 ^ 1023"
  shows "f64_add (Fin x) (Fin y) = Fin (x + y)"
proof -
  have "\<bar>x + y\<bar> \<le> a + b" using assms(1,2) by (rule abs_add_le)
  then have "\<bar>x + y\<bar> < overflow_bound" using assms(3) below_overflow by fastforce
  then show ?thesis by (rule f64_add_Fin)
qed

lemma subB:
  assumes "\<bar>x\<bar> \<le> a" "\<bar>y\<bar> \<le> b" "a + b \<le> 2 ^ 1023"
  shows "f64_sub (Fin x) (Fin y) = Fin (x - y)"
proof -
  have "\<bar>x - y\<bar> \<le> a + b" using assms(1,2) by (rule abs_sub_le)
  then have "\<bar>x - y\<bar> < overflow_bound" using assms(3) below_overflow by fastforce
  then show ?thesis by (rule f64_sub_Fin)
qed

lemma divB_pi:
  assumes "\<bar>x\<bar> \<le> a" "a \<le> 2 ^ 1023"
  shows "f64_div (Fin x) (Fin pi) = Fin (x / pi)"
proof -
  have "1 \<le> pi" using pi_ge_two by linarith
  then have "\<bar>x / pi\<bar> \<le> \<bar>x\<bar>"
    by (simp add: divide_le_eq mult_le_cancel_left1)
  then have "\<bar>x / pi\<bar> < overflow_bound" using assms below_overflow by fastforce
  moreover have "pi \<noteq> 0" by simp
  ultimately show ?thesis by (simp add: f64_div_Fin del: divide_npfloat.simps)
qed

lemma squareB:
  assumes "\<bar>x\<bar> \<le> 2 ^ 333"
  shows "x\<^sup>2 \<le> 2 ^ 666" "py_square (Fin x) = Inr (Fin (x\<^sup>2))"
proof -
  have "\<bar>x * x\<bar> \<le> 2 ^ 333 * 2 ^ 333" using assms assms by (rule abs_mult_le)
  then show le: "x\<^sup>2 \<le> 2 ^ 666" by (simp add: power2_eq_square abs_mult)
  then have "x\<^sup>2 < overflow_bound" using below_overflow[of "x\<^sup>2"] by simp
  then show "py_square (Fin x) = Inr (Fin (x\<^sup>2))" by (rule py_square_Fin)
qed

text \<open>
  For finite inputs of magnitude at most \<open>2^333\<close> (which is above \<open>10^100\<close>) no
  operation of \<open>RVGazimuth_man\<close> overflows: every intermediate value stays
  below \<open>2^1023\<close>, and the call returns the forces of the specification's
  formula, with the warning exactly when the angle of attack is beyond 35
  degrees.
\<close>

lemma RVGazimuth_man_signed_bounded:
  fixes u v angle revs :: real
  assumes u: "\<bar>u\<bar> \<le> 2 ^ 333" and v: "\<bar>v\<bar> \<le> 2 ^ 333"
    and a: "\<bar>angle\<bar> \<le> 2 ^ 333" and r: "\<bar>revs\<bar> \<le> 2 ^ 333"
  shows "RVGazimuth_man_signed u_neg v_neg (Fin u) (Fin v) (Fin angle) (Fin revs) =
     Inr (if 35 * pi / 180 < \<bar>angle - atan2_signed v_neg u_neg v u\<bar>
          then [aoa_warning
                 (round_half_even ((angle - atan2_signed v_neg u_neg v u) * 180 / pi))]
          else [],
          Fin (fst (RVGazimuth_forces (atan2_signed v_neg u_neg v u) u v angle revs)),
          Fin (snd (RVGazimuth_forces (atan2_signed v_neg u_neg v u) u v angle revs)))"
proof -
  define inflow where "inflow = atan2_signed v_neg u_neg v u"
  define s where "s = u\<^sup>2 + v\<^sup>2"
  define aoa where "aoa = - inflow + angle"
  define Cd where "Cd = 0.3 + \<bar>aoa\<bar> * 0.3"
  define Cl where "Cl = 0.5 * sin (2 * aoa)"
  define Fdrag where "Fdrag = 0.5 * 1000 * 9 * Cd * s"
  define Flift where "Flift = 0.5 * 1000 * 9 * Cl * s"
  define Ffoilx where "Ffoilx = (- Fdrag) * cos aoa + Flift * sin aoa"
  define Ffoily where "Ffoily = Flift * cos aoa + Fdrag * sin aoa"
  define Fthrust where "Fthrust = 2.2 * 1 * revs\<^sup>2"
  define Fx where
    "Fx = Fthrust * cos angle + Ffoilx * cos angle - Ffoily * sin angle"
  define Fy where
    "Fy = Fthrust * sin angle + Ffoilx * sin angle + Ffoily * cos angle"
  have one: "\<And>x::real. \<bar>sin x\<bar> \<le> 1" "\<And>x::real. \<bar>cos x\<bar> \<le> 1" by simp_all
  have pi4: "\<bar>pi\<bar> \<le> 4" using pi_less_4 pi_gt_zero by simp

  have u2: "u\<^sup>2 \<le> 2 ^ 666" and e_u: "py_square (Fin u) = Inr (Fin (u\<^sup>2))"
    using squareB[OF u] by simp_all
  have v2: "v\<^sup>2 \<le> 2 ^ 666" and e_v: "py_square (Fin v) = Inr (Fin (v\<^sup>2))"
    using squareB[OF v] by simp_all
  have r2: "revs\<^sup>2 \<le> 2 ^ 666" and e_r: "py_square (Fin revs) = Inr (Fin (revs\<^sup>2))"
    using squareB[OF r] by simp_all
  have s0: "0 \<le> s" by (simp add: s_def)
  have bs: "\<bar>s\<bar> \<le> 2 * 2 ^ 666" using u2 v2 s0 by (simp add: s_def)
  have e_s: "f64_add (Fin (u\<^sup>2)) (Fin (v\<^sup>2)) = Fin s"
    unfolding s_def by (rule addB[where a = "2 ^ 666" and b = "2 ^ 666"]) (use u2 v2 in simp_all)
  have e_V: "np_sqrt (Fin s) = Fin (sqrt s)" using s0 by simp
  have e_V2: "np_square (Fin (sqrt s)) = Fin s"
    using np_square_Fin[of "sqrt s"] s0 bs below_overflow[of s] by simp
  have e_in: "np_arctan2_signed v_neg u_neg (Fin v) (Fin u) = Fin inflow"
    by (simp add: inflow_def)
  have bin: "\<bar>- inflow\<bar> \<le> 4" using atan2_signed_bound[of v_neg u_neg v u] by (simp add: inflow_def)
  have baoa: "\<bar>aoa\<bar> \<le> 2 * 2 ^ 333" using bin a by (simp add: aoa_def)
  have e_aoa: "f64_add (Fin (- inflow)) (Fin angle) = Fin aoa"
    unfolding aoa_def by (rule addB[OF bin a]) simp
  have e_max: "f64_div (f64_mul (Fin 35) (Fin pi)) (Fin 180) = Fin (35 * pi / 180)"
  proof -
    have "f64_mul (Fin 35) (Fin pi) = Fin (35 * pi)"
      by (rule mulB[where a = 35 and b = 4]) (use pi4 in simp_all)
    moreover have "\<bar>35 * pi / 180\<bar> < overflow_bound"
      using pi4 below_overflow[of "\<bar>35 * pi / 180\<bar>"] by simp
    ultimately show ?thesis by (simp add: f64_div_Fin del: divide_npfloat.simps)
  qed
  have e_t: "f64_div (f64_mul (Fin aoa) (Fin 180)) (Fin pi) = Fin (aoa * 180 / pi)"
  proof -
    have m: "f64_mul (Fin aoa) (Fin 180) = Fin (aoa * 180)"
      by (rule mulB[OF baoa, where b = 180]) simp_all
    have "\<bar>aoa * 180\<bar> \<le> 2 * 2 ^ 333 * 180"
      by (rule abs_mult_le[OF baoa]) simp
    then have "f64_div (Fin (aoa * 180)) (Fin pi) = Fin (aoa * 180 / pi)"
      by (rule divB_pi) simp
    with m show ?thesis by simp
  qed
  have bCd: "\<bar>Cd\<bar> \<le> 2 ^ 333" using baoa by (simp add: Cd_def)
  have e_Cd: "f64_add (Fin 0.3) (f64_mul (Fin \<bar>aoa\<bar>) (Fin 0.3)) = Fin Cd"
  proof -
    have b: "\<bar>\<bar>aoa\<bar>\<bar> \<le> 2 * 2 ^ 333" using baoa by simp
    have m: "f64_mul (Fin \<bar>aoa\<bar>) (Fin 0.3) = Fin (\<bar>aoa\<bar> * 0.3)"
      by (rule mulB[OF b, where b = 1]) simp_all
    have "\<bar>\<bar>aoa\<bar> * 0.3\<bar> \<le> 2 * 2 ^ 333 * 1"
      by (rule abs_mult_le[OF b]) simp
    then have "f64_add (Fin 0.3) (Fin (\<bar>aoa\<bar> * 0.3)) = Fin (0.3 + \<bar>aoa\<bar> * 0.3)"
      by (intro addB[where a = 1 and b = "2 * 2 ^ 333 * 1"]) simp_all
    with m show ?thesis by (simp add: Cd_def)
  qed
  have bCl: "\<bar>Cl\<bar> \<le> 1"
  proof -
    have "\<bar>0.5 * sin (2 * aoa)\<bar> \<le> 1 * 1"
      by (rule abs_mult_le) simp_all
    then show ?thesis by (simp add: Cl_def)
  qed
  have e_Cl: "f64_mul (Fin 0.5) (np_sin (f64_mul (Fin 2) (Fin aoa))) = Fin Cl"
  proof -
    have m: "f64_mul (Fin 2) (Fin aoa) = Fin (2 * aoa)"
      by (rule mulB[OF _ baoa, where a = 2]) simp_all
    have "f64_mul (Fin 0.5) (Fin (sin (2 * aoa))) = Fin (0.5 * sin (2 * aoa))"
      by (rule mulB[OF _ one(1), where a = 1]) simp_all
    with m show ?thesis by (simp add: Cl_def)
  qed
  have e_k: "f64_mul (f64_mul (Fin 0.5) (Fin 1000)) (Fin 9) = Fin (0.5 * 1000 * 9)"
  proof -
    have "f64_mul (Fin 0.5) (Fin 1000) = Fin (0.5 * 1000)"
      by (rule mulB[where a = 1 and b = 1000]) simp_all
    moreover have "f64_mul (Fin (0.5 * 1000)) (Fin 9) = Fin (0.5 * 1000 * 9)"
      by (rule mulB[where a = 500 and b = 9]) simp_all
    ultimately show ?thesis by simp
  qed
  have bkCd: "\<bar>0.5 * 1000 * 9 * Cd\<bar> \<le> 4500 * 2 ^ 333"
    by (rule abs_mult_le[OF _ bCd]) simp
  have bkCl: "\<bar>0.5 * 1000 * 9 * Cl\<bar> \<le> 4500 * 1"
    by (rule abs_mult_le[OF _ bCl]) simp
  have bFdrag: "\<bar>Fdrag\<bar> \<le> 2 ^ 1016"
  proof -
    have "\<bar>0.5 * 1000 * 9 * Cd * s\<bar> \<le> 4500 * 2 ^ 333 * (2 * 2 ^ 666)"
      by (rule abs_mult_le[OF bkCd bs])
    then show ?thesis by (simp add: Fdrag_def)
  qed
  have bFlift: "\<bar>Flift\<bar> \<le> 2 ^ 1016"
  proof -
    have "\<bar>0.5 * 1000 * 9 * Cl * s\<bar> \<le> 4500 * 1 * (2 * 2 ^ 666)"
      by (rule abs_mult_le[OF bkCl bs])
    then show ?thesis by (simp add: Flift_def)
  qed
  have e_Fdrag: "f64_mul (f64_mul (Fin (0.5 * 1000 * 9)) (Fin Cd)) (Fin s) = Fin Fdrag"
  proof -
    have "f64_mul (Fin (0.5 * 1000 * 9)) (Fin Cd) = Fin (0.5 * 1000 * 9 * Cd)"
      by (rule mulB[OF _ bCd, where a = 4500]) simp_all
    moreover have "f64_mul (Fin (0.5 * 1000 * 9 * Cd)) (Fin s) = Fin (0.5 * 1000 * 9 * Cd * s)"
      by (rule mulB[OF bkCd bs]) simp
    ultimately show ?thesis by (simp add: Fdrag_def)
  qed
  have e_Flift: "f64_mul (f64_mul (Fin (0.5 * 1000 * 9)) (Fin Cl)) (Fin s) = Fin Flift"
  proof -
    have "f64_mul (Fin (0.5 * 1000 * 9)) (Fin Cl) = Fin (0.5 * 1000 * 9 * Cl)"
      by (rule mulB[OF _ bCl, where a = 4500]) simp_all
    moreover have "f64_mul (Fin (0.5 * 1000 * 9 * Cl)) (Fin s) = Fin (0.5 * 1000 * 9 * Cl * s)"
      by (rule mulB[OF bkCl bs]) simp
    ultimately show ?thesis by (simp add: Flift_def)
  qed
  have bnFdrag: "\<bar>- Fdrag\<bar> \<le> 2 ^ 1016" using bFdrag by simp
  have p1: "\<bar>(- Fdrag) * cos aoa\<bar> \<le> 2 ^ 1016 * 1" by (rule abs_mult_le[OF bnFdrag one(2)])
  have p2: "\<bar>Flift * sin aoa\<bar> \<le> 2 ^ 1016 * 1" by (rule abs_mult_le[OF bFlift one(1)])
  have p3: "\<bar>Flift * cos aoa\<bar> \<le> 2 ^ 1016 * 1" by (rule abs_mult_le[OF bFlift one(2)])
  have p4: "\<bar>Fdrag * sin aoa\<bar> \<le> 2 ^ 1016 * 1" by (rule abs_mult_le[OF bFdrag one(1)])
  have bFfoilx: "\<bar>Ffoilx\<bar> \<le> 2 * 2 ^ 1016"
    unfolding Ffoilx_def using abs_add_le[OF p1 p2] by simp
  have bFfoily: "\<bar>Ffoily\<bar> \<le> 2 * 2 ^ 1016"
    unfolding Ffoily_def using abs_add_le[OF p3 p4] by simp
  have e_Ffoilx:
    "f64_add (f64_mul (Fin (- Fdrag)) (Fin (cos aoa))) (f64_mul (Fin Flift) (Fin (sin aoa)))
       = Fin Ffoilx"
  proof -
    have "f64_mul (Fin (- Fdrag)) (Fin (cos aoa)) = Fin ((- Fdrag) * cos aoa)"
      by (rule mulB[OF bnFdrag one(2)]) simp
    moreover have "f64_mul (Fin Flift) (Fin (sin aoa)) = Fin (Flift * sin aoa)"
      by (rule mulB[OF bFlift one(1)]) simp
    moreover have "f64_add (Fin ((- Fdrag) * cos aoa)) (Fin (Flift * sin aoa))
        = Fin ((- Fdrag) * cos aoa + Flift * sin aoa)"
      by (rule addB[OF p1 p2]) simp
    ultimately show ?thesis by (simp add: Ffoilx_def)
  qed
  have e_Ffoily:
    "f64_add (f64_mul (Fin Flift) (Fin (cos aoa))) (f64_mul (Fin Fdrag) (Fin (sin aoa)))
       = Fin Ffoily"
  proof -
    have "f64_mul (Fin Flift) (Fin (cos aoa)) = Fin (Flift * cos aoa)"
      by (rule mulB[OF bFlift one(2)]) simp
    moreover have "f64_mul (Fin Fdrag) (Fin (sin aoa)) = Fin (Fdrag * sin aoa)"
      by (rule mulB[OF bFdrag one(1)]) simp
    moreover have "f64_add (Fin (Flift * cos aoa)) (Fin (Fdrag * sin aoa))
        = Fin (Flift * cos aoa + Fdrag * sin aoa)"
      by (rule addB[OF p3 p4]) simp
    ultimately show ?thesis by (simp add: Ffoily_def)
  qed
  have bFthrust: "\<bar>Fthrust\<bar> \<le> 2 ^ 1016"
  proof -
    have "\<bar>2.2 * 1 * revs\<^sup>2\<bar> \<le> 3 * 2 ^ 666"
      by (rule abs_mult_le[where a = 3 and b = "2 ^ 666"]) (use r2 in simp_all)
    then show ?thesis by (simp add: Fthrust_def)
  qed
  have e_Fthrust: "f64_mul (f64_mul (Fin 2.2) (Fin 1)) (Fin (revs\<^sup>2)) = Fin Fthrust"
  proof -
    have "f64_mul (Fin 2.2) (Fin 1) = Fin (2.2 * 1)"
      by (rule mulB[where a = 3 and b = 1]) simp_all
    moreover have "f64_mul (Fin (2.2 * 1)) (Fin (revs\<^sup>2)) = Fin (2.2 * 1 * revs\<^sup>2)"
      by (rule mulB[where a = 3 and b = "2 ^ 666"]) (use r2 in simp_all)
    ultimately show ?thesis by (simp add: Fthrust_def)
  qed
  have q1: "\<And>t. \<bar>t\<bar> \<le> 1 \<Longrightarrow> \<bar>Fthrust * t\<bar> \<le> 2 ^ 1016 * 1"
    by (rule abs_mult_le[OF bFthrust])
  have q2: "\<And>t. \<bar>t\<bar> \<le> 1 \<Longrightarrow> \<bar>Ffoilx * t\<bar> \<le> 2 * 2 ^ 1016 * 1"
    by (rule abs_mult_le[OF bFfoilx])
  have q3: "\<And>t. \<bar>t\<bar> \<le> 1 \<Longrightarrow> \<bar>Ffoily * t\<bar> \<le> 2 * 2 ^ 1016 * 1"
    by (rule abs_mult_le[OF bFfoily])
  have m1: "\<And>t. \<bar>t\<bar> \<le> 1 \<Longrightarrow> f64_mul (Fin Fthrust) (Fin t) = Fin (Fthrust * t)"
    by (rule mulB[OF bFthrust, where b = 1]) simp_all
  have m2: "\<And>t. \<bar>t\<bar> \<le> 1 \<Longrightarrow> f64_mul (Fin Ffoilx) (Fin t) = Fin (Ffoilx * t)"
    by (rule mulB[OF bFfoilx, where b = 1]) simp_all
  have m3: "\<And>t. \<bar>t\<bar> \<le> 1 \<Longrightarrow> f64_mul (Fin Ffoily) (Fin t) = Fin (Ffoily * t)"
    by (rule mulB[OF bFfoily, where b = 1]) simp_all
  have e_Fx:
    "f64_sub (f64_add (f64_mul (Fin Fthrust) (Fin (cos angle)))
                      (f64_mul (Fin Ffoilx) (Fin (cos angle))))
             (f64_mul (Fin Ffoily) (Fin (sin angle))) = Fin Fx"
  proof -
    have "f64_add (Fin (Fthrust * cos angle)) (Fin (Ffoilx * cos angle))
        = Fin (Fthrust * cos angle + Ffoilx * cos angle)"
      by (rule addB[OF q1 q2]) (simp_all add: one)
    moreover have "\<bar>Fthrust * cos angle + Ffoilx * cos angle\<bar> \<le> 2 ^ 1016 * 1 + 2 * 2 ^ 1016 * 1"
      by (rule abs_add_le[OF q1 q2]) (simp_all add: one)
    then have "f64_sub (Fin (Fthrust * cos angle + Ffoilx * cos angle)) (Fin (Ffoily * sin angle))
        = Fin (Fthrust * cos angle + Ffoilx * cos angle - Ffoily * sin angle)"
      by (rule subB[OF _ q3]) (simp_all add: one)
    ultimately show ?thesis by (simp add: m1 m2 m3 one Fx_def)
  qed
  have e_Fy:
    "f64_add (f64_add (f64_mul (Fin Fthrust) (Fin (sin angle)))
                      (f64_mul (Fin Ffoilx) (Fin (sin angle))))
             (f64_mul (Fin Ffoily) (Fin (cos angle))) = Fin Fy"
  proof -
    have "f64_add (Fin (Fthrust * sin angle)) (Fin (Ffoilx * sin angle))
        = Fin (Fthrust * sin angle + Ffoilx * sin angle)"
      by (rule addB[OF q1 q2]) (simp_all add: one)
    moreover have "\<bar>Fthrust * sin angle + Ffoilx * sin angle\<bar> \<le> 2 ^ 1016 * 1 + 2 * 2 ^ 1016 * 1"
      by (rule abs_add_le[OF q1 q2]) (simp_all add: one)
    then have "f64_add (Fin (Fthrust * sin angle + Ffoilx * sin angle)) (Fin (Ffoily * cos angle))
        = Fin (Fthrust * sin angle + Ffoilx * sin angle + Ffoily * cos angle)"
      by (rule addB[OF _ q3]) (simp_all add: one)
    ultimately show ?thesis by (simp add: m1 m2 m3 one Fy_def)
  qed
  have model: "RVGazimuth_man_signed u_neg v_neg (Fin u) (Fin v) (Fin angle) (Fin revs) =
     Inr (if 35 * pi / 180 < \<bar>aoa\<bar>
          then [aoa_warning (round_half_even (aoa * 180 / pi))] else [], Fin Fx, Fin Fy)"
    unfolding RVGazimuth_man_signed_def
    by (simp only: e_u e_v e_r err_bind_def sum.case Let_def e_s e_V e_V2 e_in
        uminus_npfloat.simps abs_npfloat.simps np_sin.simps np_cos.simps np_greater.simps
        e_aoa e_max e_t e_Cd e_Cl e_k e_Fdrag e_Flift e_Ffoilx e_Ffoily e_Fthrust e_Fx e_Fy
        py_round.simps if_distrib[of "\<lambda>r. case r of Inl e \<Rightarrow> Inl e | Inr x \<Rightarrow> _ x"]
        if_distrib[of "\<lambda>r. case r of Inl e \<Rightarrow> Inl e | Inr x \<Rightarrow> _"] if_cancel) simp
  have aoa': "aoa = angle - inflow" by (simp add: aoa_def)
  have "Fx = fst (RVGazimuth_forces inflow u v angle revs)"
    "Fy = snd (RVGazimuth_forces inflow u v angle revs)"
    using s0 by (simp_all add: Fx_def Fy_def Fthrust_def Ffoilx_def Ffoily_def Fdrag_def
        Flift_def Cd_def Cl_def aoa' s_def RVGazimuth_forces_def Let_def algebra_simps)
  then show ?thesis using model by (simp add: aoa' inflow_def)
qed

lemma input_bound: "\<bar>x\<bar> \<le> 10 ^ 100 \<Longrightarrow> \<bar>x\<bar> \<le> (2::real) ^ 333"
  by simp

lemma atan2_signed_positive_zero: "atan2_signed False False y x = atan2 y x"
  by (simp add: atan2_signed_def atan2_def)

text \<open>
  The function on inputs that are not negative zeros, in the same range.
\<close>

lemma RVGazimuth_man_bounded:
  fixes u v angle revs :: real
  assumes "\<bar>u\<bar> \<le> 2 ^ 333" "\<bar>v\<bar> \<le> 2 ^ 333" "\<bar>angle\<bar> \<le> 2 ^ 333" "\<bar>revs\<bar> \<le> 2 ^ 333"
  shows "RVGazimuth_man (Fin u) (Fin v) (Fin angle) (Fin revs) =
     Inr (if 35 * pi / 180 < \<bar>angle - atan2 v u\<bar>
          then [aoa_warning (round_half_even ((angle - atan2 v u) * 180 / pi))] else [],
          Fin (fst (RVGazimuth_forces (atan2 v u) u v angle revs)),
          Fin (snd (RVGazimuth_forces (atan2 v u) u v angle revs)))"
  unfolding RVGazimuth_man_def
  using RVGazimuth_man_signed_bounded[OF assms, of False False]
  by (simp only: atan2_signed_positive_zero)

lemma aoa_max_value: "f64_div (f64_mul (Fin 35) (Fin pi)) (Fin 180) = Fin (35 * pi / 180)"
proof -
  have pi4: "\<bar>pi\<bar> \<le> 4" using pi_less_4 pi_gt_zero by simp
  have "f64_mul (Fin 35) (Fin pi) = Fin (35 * pi)"
    by (rule mulB[where a = 35 and b = 4]) (use pi4 in simp_all)
  moreover have "\<bar>35 * pi / 180\<bar> < overflow_bound"
    using pi4 below_overflow[of "\<bar>35 * pi / 180\<bar>"] by simp
  ultimately show ?thesis by (simp add: f64_div_Fin del: divide_npfloat.simps)
qed

text \<open>
  A finite angle near the top of the range: the angle of attack exceeds the
  threshold, \<^verbatim>\<open>aoa * 180\<close> overflows to an infinity, and \<^verbatim>\<open>round\<close> raises
  \<open>OverflowError\<close> before anything is printed or returned.
\<close>

lemma huge_angle_raises:
  assumes u: "\<bar>u\<bar> \<le> 1"
  shows "RVGazimuth_man (Fin u) (Fin 0) (Fin (2 ^ 1023)) (Fin 0) = Inl OverflowError"
proof -
  have u2: "py_square (Fin u) = Inr (Fin (u\<^sup>2))"
    by (rule squareB(2)) (use u in simp)
  have v2: "py_square (Fin 0) = Inr (Fin 0)"
    by (simp add: overflow_bound_def)
  have inflow: "\<bar>- atan2_signed False False 0 u\<bar> \<le> 4"
    using atan2_signed_bound[of False False 0 u] by simp
  have top: "(2::real) ^ 1023 < overflow_bound" by (simp add: overflow_bound_def)
  have pi4: "pi < 4" "0 < pi" using pi_less_4 pi_gt_zero by simp_all
  define aoa where "aoa = - atan2_signed False False 0 u + 2 ^ 1023"
  have lo: "2 ^ 1022 \<le> aoa" using inflow by (simp add: aoa_def)
  have hi: "aoa < overflow_bound"
  proof -
    have "aoa \<le> 4 + 2 ^ 1023" using inflow by (simp add: aoa_def)
    also have "\<dots> < overflow_bound" by (simp add: overflow_bound_def)
    finally show ?thesis .
  qed
  have e_aoa: "f64_add (Fin (- atan2_signed False False 0 u)) (Fin (2 ^ 1023)) = Fin aoa"
    unfolding aoa_def by (rule f64_add_Fin) (use lo hi in \<open>simp add: aoa_def\<close>)
  have gt: "35 * pi / 180 < \<bar>aoa\<bar>" using lo pi4 by simp
  have "overflow_bound \<le> aoa * 180"
  proof -
    have "overflow_bound \<le> 2 ^ 1022 * 180" by (simp add: overflow_bound_def)
    also have "\<dots> \<le> aoa * 180" using lo by simp
    finally show ?thesis .
  qed
  then have e_t: "f64_div (f64_mul (Fin aoa) (Fin 180)) (Fin pi) = PInf"
    using pi4 by (simp add: f64_mul_def f64_div_def)
  show ?thesis
    unfolding RVGazimuth_man_def RVGazimuth_man_signed_def
    using gt
    by (simp only: u2 v2 err_bind_def sum.case Let_def np_arctan2_signed.simps
        uminus_npfloat.simps abs_npfloat.simps np_greater.simps e_aoa aoa_max_value e_t
        py_round.simps if_True)
qed

text \<open>
  C4, amended.  For finite inputs of magnitude at most \<open>10^100\<close>, with either
  sign of a zero \<open>u\<close> or \<open>v\<close>, \<open>RVGazimuth_man\<close> prints its warning exactly
  when the angle of attack \<open>aoa = angle - arctan2(v, u)\<close> has \<open>|aoa| > 35\<close>
  degrees; the line printed names a validity range of 30 degrees; and with
  or without the warning the call returns the forces of the specification's
  formula.
\<close>

theorem RVGazimuth_man_diagnostic:
  fixes u v angle revs :: real
  assumes "\<bar>u\<bar> \<le> 10 ^ 100" "\<bar>v\<bar> \<le> 10 ^ 100" "\<bar>angle\<bar> \<le> 10 ^ 100" "\<bar>revs\<bar> \<le> 10 ^ 100"
  shows "\<exists>n. RVGazimuth_man_signed u_neg v_neg (Fin u) (Fin v) (Fin angle) (Fin revs) =
     Inr (if 35 * pi / 180 < \<bar>angle - atan2_signed v_neg u_neg v u\<bar>
          then [''Warning (thrusters.RVGazimuth_man): Angle of attack=''
                @ str_int n
                @ ''deg, assumed validity range is +/- 30deg'']
          else [],
          Fin (fst (RVGazimuth_forces (atan2_signed v_neg u_neg v u) u v angle revs)),
          Fin (snd (RVGazimuth_forces (atan2_signed v_neg u_neg v u) u v angle revs)))"
  using RVGazimuth_man_signed_bounded[OF assms[THEN input_bound], of u_neg v_neg]
  unfolding aoa_warning_def by blast

theorem RVGazimuth_man_diagnostic_witness:
  "\<bar>1\<bar> \<le> (10::real) ^ 100 \<and> \<bar>0\<bar> \<le> (10::real) ^ 100 \<and> \<bar>pi\<bar> \<le> 10 ^ 100
   \<and> (\<exists>n. RVGazimuth_man_signed False False (Fin 1) (Fin 0) (Fin pi) (Fin 0) =
          Inr ([''Warning (thrusters.RVGazimuth_man): Angle of attack=''
                @ str_int n
                @ ''deg, assumed validity range is +/- 30deg''],
               Fin (- 1350 - 1350 * pi), Fin 0))"
proof -
  have h1: "\<bar>1\<bar> \<le> (10::real) ^ 100" and h0: "\<bar>0\<bar> \<le> (10::real) ^ 100" by simp_all
  have hp: "\<bar>pi\<bar> \<le> 10 ^ 100"
  proof -
    have "\<bar>pi\<bar> \<le> 4" using pi_less_4 pi_gt_zero by simp
    also have "\<dots> \<le> 10 ^ 100" by simp
    finally show ?thesis .
  qed
  show ?thesis
    using h1 h0 hp RVGazimuth_man_diagnostic[OF h1 h0 hp h0, of False False]
    by (simp add: atan2_signed_positive_zero atan2_def RVGazimuth_forces_def)
qed

text \<open>
  C4 as stated fails: the diagnostic is not non-fatal on every input.  At the
  finite angle \<open>2^1023\<close> the angle of attack is beyond 35 degrees and the call
  raises \<open>OverflowError\<close> while it builds the warning; it returns no forces.
\<close>

theorem RVGazimuth_man_fatal_counterexample:
  "RVGazimuth_man (Fin 1) (Fin 0) (Fin (2 ^ 1023)) (Fin 0) = Inl OverflowError"
  by (rule huge_angle_raises) simp

text \<open>
  C3 as stated fails: at \<open>u = 5\<close>, \<open>v = 0\<close>, \<open>angle = 0\<close>, \<open>revs = 165\<close> the surge
  force is 26145, not \<open>Ct * 165\<^sup>2 = 59895\<close>.
\<close>

theorem RVGazimuth_man_scenario_counterexample:
  "RVGazimuth_man (Fin 5) (Fin 0) (Fin 0) (Fin 165) = Inr ([], Fin 26145, Fin 0)
   \<and> Fin 26145 \<noteq> Fin (2.2 * 165\<^sup>2)"
  by (simp add: RVGazimuth_man_bounded RVGazimuth_forces_def atan2_def)

text \<open>
  C3, amended.  At \<open>u = 5\<close>, \<open>v = 0\<close>, \<open>angle = 0\<close>, \<open>revs = 165\<close> nothing is
  printed, the surge force is the thrust \<open>Ct * 165\<^sup>2\<close> less the foil drag
  \<open>0.5 * rho * A * Cd * V\<^sup>2\<close> with \<open>Cd = 0.3\<close> and \<open>V = 5\<close>, and the sway force
  is 0.
\<close>

theorem RVGazimuth_man_scenario:
  "RVGazimuth_man (Fin 5) (Fin 0) (Fin 0) (Fin 165) =
     Inr ([], Fin (2.2 * 165\<^sup>2 - 0.5 * 1000 * 9 * 0.3 * 5\<^sup>2), Fin 0)"
  by (simp add: RVGazimuth_man_bounded RVGazimuth_forces_def atan2_def)

text \<open>
  C10, amended.  At zero inflow, \<open>u\<close> and \<open>v\<close> zeros of either sign, and every
  finite azimuth angle and \<open>revs\<close> of magnitude at most \<open>10^100\<close>, the call
  returns (no error), and the forces are exactly the thrust \<open>Ct * revs\<^sup>2\<close> with
  \<open>Ct = 2.2\<close>, turned by the azimuth angle.
\<close>

theorem RVGazimuth_man_zero_inflow:
  fixes angle revs :: real
  assumes "\<bar>angle\<bar> \<le> 10 ^ 100" "\<bar>revs\<bar> \<le> 10 ^ 100"
  shows "\<exists>printed. RVGazimuth_man_signed u_neg v_neg (Fin 0) (Fin 0) (Fin angle) (Fin revs) =
     Inr (printed, Fin (2.2 * revs\<^sup>2 * cos angle), Fin (2.2 * revs\<^sup>2 * sin angle))"
proof -
  have z: "\<bar>0\<bar> \<le> (2::real) ^ 333" by simp
  show ?thesis
    using RVGazimuth_man_signed_bounded[OF z z assms[THEN input_bound], of u_neg v_neg]
    by (simp add: RVGazimuth_forces_def)
qed

theorem RVGazimuth_man_zero_inflow_witness:
  "\<bar>0\<bar> \<le> (10::real) ^ 100 \<and> \<bar>165\<bar> \<le> (10::real) ^ 100
   \<and> (\<exists>printed. RVGazimuth_man_signed True False (Fin 0) (Fin 0) (Fin 0) (Fin 165) =
          Inr (printed, Fin (2.2 * 165\<^sup>2), Fin 0))"
proof -
  have h0: "\<bar>0\<bar> \<le> (10::real) ^ 100" and h: "\<bar>165\<bar> \<le> (10::real) ^ 100" by simp_all
  show ?thesis
    using h0 h RVGazimuth_man_zero_inflow[OF h0 h, of True False] by simp
qed

text \<open>
  C10 as stated fails: at zero inflow and the finite angle \<open>2^1023\<close> the call
  does not complete; it raises \<open>OverflowError\<close>.
\<close>

theorem RVGazimuth_man_zero_inflow_counterexample:
  "RVGazimuth_man (Fin 0) (Fin 0) (Fin (2 ^ 1023)) (Fin 0) = Inl OverflowError"
  by (rule huge_angle_raises) simp

text \<open>The errors of \<open>RVGazimuth_man\<close>, and its value on NaN.\<close>

lemma py_square_not_InvalidInput: "py_square x \<noteq> Inl InvalidInput"
  by (cases x) simp_all

lemma py_round_not_InvalidInput: "py_round x \<noteq> Inl InvalidInput"
  by (cases x) simp_all

lemma RVGazimuth_man_not_InvalidInput: "RVGazimuth_man u v angle revs \<noteq> Inl InvalidInput"
  using py_square_not_InvalidInput[of u] py_square_not_InvalidInput[of v]
    py_square_not_InvalidInput[of revs]
    py_round_not_InvalidInput
  by (auto simp: RVGazimuth_man_def RVGazimuth_man_signed_def err_bind_def Let_def
      split: sum.splits if_splits)

lemma RVGazimuth_man_NaN: "RVGazimuth_man NaN NaN NaN NaN = Inr ([], NaN, NaN)"
  by (simp add: RVGazimuth_man_def RVGazimuth_man_signed_def Let_def err_bind_def
      f64_add_def f64_sub_def f64_mul_def f64_div_def minus_npfloat_def)

section \<open>Algebra of finite 3x3 matrices\<close>

lemmas mat_simps = matmul_def mat_T_def eye3_def det3_def fin3_def upt_rec

lemma matmul_fin3:
  "matmul (fin3 f) (fin3 g) = fin3 (\<lambda>i j. f i 0 * g 0 j + f i 1 * g 1 j + f i 2 * g 2 j)"
  by (simp add: mat_simps)

lemma mat_T_fin3: "mat_T (fin3 f) = fin3 (\<lambda>i j. f j i)"
  by (simp add: mat_simps)

lemma det3_fin3:
  "det3 (fin3 f) = Fin (f 0 0 * (f 1 1 * f 2 2 - f 1 2 * f 2 1)
     - f 0 1 * (f 1 0 * f 2 2 - f 1 2 * f 2 0)
     + f 0 2 * (f 1 0 * f 2 1 - f 1 1 * f 2 0))"
  by (simp add: mat_simps)

lemma fin3_eq_iff:
  "fin3 f = fin3 g \<longleftrightarrow>
     f 0 0 = g 0 0 \<and> f 0 1 = g 0 1 \<and> f 0 2 = g 0 2 \<and>
     f 1 0 = g 1 0 \<and> f 1 1 = g 1 1 \<and> f 1 2 = g 1 2 \<and>
     f 2 0 = g 2 0 \<and> f 2 1 = g 2 1 \<and> f 2 2 = g 2 2"
  by (simp add: fin3_def)

lemma finite3_matmul:
  assumes "finite3 A" "finite3 B"
  shows "finite3 (matmul A B)"
proof -
  obtain f g where "A = fin3 f" "B = fin3 g"
    using assms unfolding finite3_def by blast
  then have "matmul A B = fin3 (\<lambda>i j. f i 0 * g 0 j + f i 1 * g 1 j + f i 2 * g 2 j)"
    by (simp only: matmul_fin3)
  then show ?thesis unfolding finite3_def by blast
qed

lemma finite3_mat_T:
  assumes "finite3 A"
  shows "finite3 (mat_T A)"
proof -
  obtain f where "A = fin3 f"
    using assms unfolding finite3_def by blast
  then have "mat_T A = fin3 (\<lambda>i j. f j i)"
    by (simp only: mat_T_fin3)
  then show ?thesis unfolding finite3_def by blast
qed

lemma matmul_assoc:
  assumes "finite3 A" "finite3 B" "finite3 C"
  shows "matmul (matmul A B) C = matmul A (matmul B C)"
proof -
  obtain f g h where "A = fin3 f" "B = fin3 g" "C = fin3 h"
    using assms unfolding finite3_def by blast
  then show ?thesis
    by (simp add: matmul_fin3 fin3_eq_iff algebra_simps)
qed

lemma mat_T_matmul:
  assumes "finite3 A" "finite3 B"
  shows "mat_T (matmul A B) = matmul (mat_T B) (mat_T A)"
proof -
  obtain f g where "A = fin3 f" "B = fin3 g"
    using assms unfolding finite3_def by blast
  then show ?thesis
    by (simp add: matmul_fin3 mat_T_fin3 fin3_eq_iff algebra_simps)
qed

lemma eye3_fin3: "eye3 = fin3 (\<lambda>i j. if i = j then 1 else 0)"
  by (simp add: mat_simps)

lemma finite3_eye3: "finite3 eye3"
  unfolding finite3_def using eye3_fin3 by blast

lemma matmul_eye3:
  assumes "finite3 A"
  shows "matmul eye3 A = A" "matmul A eye3 = A"
proof -
  obtain f where "A = fin3 f"
    using assms unfolding finite3_def by blast
  then show "matmul eye3 A = A" "matmul A eye3 = A"
    by (simp_all add: eye3_fin3 matmul_fin3 fin3_eq_iff)
qed

lemma orthonormal_matmul:
  assumes A: "finite3 A" "orthonormal A" and B: "finite3 B" "orthonormal B"
  shows "orthonormal (matmul A B)"
proof -
  let ?At = "mat_T A" and ?Bt = "mat_T B"
  have At: "finite3 ?At" and Bt: "finite3 ?Bt"
    using A(1) B(1) by (simp_all add: finite3_mat_T)
  have AB: "finite3 (matmul A B)" and BtAt: "finite3 (matmul ?Bt ?At)"
    using A(1) B(1) At Bt by (simp_all add: finite3_matmul)
  have T: "mat_T (matmul A B) = matmul ?Bt ?At"
    using A(1) B(1) by (rule mat_T_matmul)
  have "matmul (matmul ?Bt ?At) (matmul A B) = matmul ?Bt (matmul ?At (matmul A B))"
    using Bt At AB by (rule matmul_assoc)
  also have "matmul ?At (matmul A B) = matmul (matmul ?At A) B"
    using At A(1) B(1) by (rule matmul_assoc[symmetric])
  also have "matmul (matmul ?At A) B = B"
    using A(2) B(1) by (simp add: orthonormal_def matmul_eye3)
  also have "matmul ?Bt B = eye3"
    using B(2) by (simp add: orthonormal_def)
  finally have left: "matmul (matmul ?Bt ?At) (matmul A B) = eye3" .
  have "matmul (matmul A B) (matmul ?Bt ?At) = matmul A (matmul B (matmul ?Bt ?At))"
    using A(1) B(1) BtAt by (rule matmul_assoc)
  also have "matmul B (matmul ?Bt ?At) = matmul (matmul B ?Bt) ?At"
    using B(1) Bt At by (rule matmul_assoc[symmetric])
  also have "matmul (matmul B ?Bt) ?At = ?At"
    using B(2) At by (simp add: orthonormal_def matmul_eye3)
  also have "matmul A ?At = eye3"
    using A(2) by (simp add: orthonormal_def)
  finally have right: "matmul (matmul A B) (matmul ?Bt ?At) = eye3" .
  show ?thesis using left right T by (simp add: orthonormal_def)
qed

lemma Rot_finite3: "finite3 (Rotx (Fin a))" "finite3 (Roty (Fin a))" "finite3 (Rotz (Fin a))"
proof -
  have "Rotx (Fin a) = fin3 (\<lambda>i j. [[1, 0, 0], [0, cos a, - sin a], [0, sin a, cos a]] ! i ! j)"
    by (simp add: Rotx_def fin3_def)
  then show "finite3 (Rotx (Fin a))" unfolding finite3_def by blast
  have "Roty (Fin a) = fin3 (\<lambda>i j. [[cos a, 0, sin a], [0, 1, 0], [- sin a, 0, cos a]] ! i ! j)"
    by (simp add: Roty_def fin3_def)
  then show "finite3 (Roty (Fin a))" unfolding finite3_def by blast
  have "Rotz (Fin a) = fin3 (\<lambda>i j. [[cos a, - sin a, 0], [sin a, cos a, 0], [0, 0, 1]] ! i ! j)"
    by (simp add: Rotz_def fin3_def)
  then show "finite3 (Rotz (Fin a))" unfolding finite3_def by blast
qed

lemma sin_cos_mult_add: "sin a * sin a + cos a * cos a = (1::real)"
  using sin_cos_squared_add[of a] by (simp add: power2_eq_square)

lemma Rot_transpose:
  "mat_T (Rotx (Fin a)) = Rotx (Fin (- a))"
  "mat_T (Roty (Fin a)) = Roty (Fin (- a))"
  "mat_T (Rotz (Fin a)) = Rotz (Fin (- a))"
  by (simp_all add: Rotx_def Roty_def Rotz_def mat_simps)

lemma Rot_inverse:
  "matmul (Rotx (Fin (- a))) (Rotx (Fin a)) = eye3"
  "matmul (Rotx (Fin a)) (Rotx (Fin (- a))) = eye3"
  "matmul (Roty (Fin (- a))) (Roty (Fin a)) = eye3"
  "matmul (Roty (Fin a)) (Roty (Fin (- a))) = eye3"
  "matmul (Rotz (Fin (- a))) (Rotz (Fin a)) = eye3"
  "matmul (Rotz (Fin a)) (Rotz (Fin (- a))) = eye3"
  by (simp_all add: Rotx_def Roty_def Rotz_def mat_simps sin_cos_mult_add)

lemma Rot_orthonormal:
  "orthonormal (Rotx (Fin a))" "orthonormal (Roty (Fin a))" "orthonormal (Rotz (Fin a))"
  by (simp_all add: orthonormal_def Rot_transpose Rot_inverse)

lemma Rot_det:
  "det3 (Rotx (Fin a)) = Fin 1" "det3 (Roty (Fin a)) = Fin 1" "det3 (Rotz (Fin a)) = Fin 1"
  by (simp_all add: Rotx_def Roty_def Rotz_def mat_simps sin_cos_mult_add)

lemma Rot_zero:
  "Rotx (Fin 0) = eye3" "Roty (Fin 0) = eye3" "Rotz (Fin 0) = eye3"
  by (simp_all add: Rotx_def Roty_def Rotz_def eye3_def)

lemma Rotzyx_cons:
  "Rotzyx (phi # theta # psi # rest) = Inr (matmul (matmul (Rotz psi) (Roty theta)) (Rotx phi))"
  by (simp add: Rotzyx_def index_def err_bind_def)

section \<open>Rotations, the skew matrix and the thruster load\<close>

lemma det3_matmul:
  assumes "finite3 A" "finite3 B"
  shows "det3 (matmul A B) = det3 A * det3 B"
proof -
  obtain f g where "A = fin3 f" "B = fin3 g"
    using assms unfolding finite3_def by blast
  then show ?thesis
    by (simp add: matmul_fin3 det3_fin3 algebra_simps)
qed

lemma Rotzyx_proper:
  "\<exists>R. Rotzyx [Fin phi, Fin theta, Fin psi] = Inr R \<and> finite3 R \<and> orthonormal R \<and> det3 R = Fin 1"
proof -
  let ?ZY = "matmul (Rotz (Fin psi)) (Roty (Fin theta))"
  let ?R = "matmul ?ZY (Rotx (Fin phi))"
  have fZY: "finite3 ?ZY" by (simp add: finite3_matmul Rot_finite3)
  have oZY: "orthonormal ?ZY" by (simp add: orthonormal_matmul Rot_finite3 Rot_orthonormal)
  have "finite3 ?R" using fZY by (simp add: finite3_matmul Rot_finite3)
  moreover have "orthonormal ?R"
    using fZY oZY by (simp add: orthonormal_matmul Rot_finite3 Rot_orthonormal)
  moreover have "det3 ?R = Fin 1"
    using fZY by (simp add: det3_matmul Rot_finite3 Rot_det)
  ultimately show ?thesis by (simp add: Rotzyx_cons)
qed

lemma Rotzyx_zero: "Rotzyx [Fin 0, Fin 0, Fin 0] = Inr eye3"
  by (simp add: Rotzyx_cons Rot_zero matmul_eye3 finite3_eye3)

text \<open>
  C7, amended.  For every finite angle \<open>a\<close>, each of \<open>Rotx\<close>, \<open>Roty\<close>, \<open>Rotz\<close>
  returns an orthonormal matrix of determinant 1, is the identity at 0, and
  its inverse is the matrix of the negated angle, which is its transpose.
  For every finite triple, \<open>Rotzyx\<close> returns an orthonormal matrix of
  determinant 1 (so its inverse is its transpose), and the identity at the
  zero triple.
\<close>

theorem rotation_matrices_proper:
  "orthonormal (Rotx (Fin a)) \<and> det3 (Rotx (Fin a)) = Fin 1 \<and> Rotx (Fin 0) = eye3
   \<and> Rotx (Fin (- a)) = mat_T (Rotx (Fin a))
   \<and> matmul (Rotx (Fin (- a))) (Rotx (Fin a)) = eye3
   \<and> matmul (Rotx (Fin a)) (Rotx (Fin (- a))) = eye3
   \<and> orthonormal (Roty (Fin a)) \<and> det3 (Roty (Fin a)) = Fin 1 \<and> Roty (Fin 0) = eye3
   \<and> Roty (Fin (- a)) = mat_T (Roty (Fin a))
   \<and> matmul (Roty (Fin (- a))) (Roty (Fin a)) = eye3
   \<and> matmul (Roty (Fin a)) (Roty (Fin (- a))) = eye3
   \<and> orthonormal (Rotz (Fin a)) \<and> det3 (Rotz (Fin a)) = Fin 1 \<and> Rotz (Fin 0) = eye3
   \<and> Rotz (Fin (- a)) = mat_T (Rotz (Fin a))
   \<and> matmul (Rotz (Fin (- a))) (Rotz (Fin a)) = eye3
   \<and> matmul (Rotz (Fin a)) (Rotz (Fin (- a))) = eye3
   \<and> (\<exists>R. Rotzyx [Fin phi, Fin theta, Fin psi] = Inr R \<and> orthonormal R \<and> det3 R = Fin 1)
   \<and> Rotzyx [Fin 0, Fin 0, Fin 0] = Inr eye3"
  using Rotzyx_proper[of phi theta psi]
  by (simp only: Rot_orthonormal Rot_det Rot_zero Rot_transpose Rot_inverse Rotzyx_zero) blast

text \<open>
  C7 as stated fails for \<open>Rotzyx\<close>: negating the triple does not give the
  transpose.  At roll \<open>\<pi>/2\<close>, pitch 0, yaw \<open>\<pi>/2\<close> the matrix of the negated
  triple differs from the transpose.
\<close>

theorem Rotzyx_negated_counterexample:
  "Rotzyx [Fin (pi / 2), Fin 0, Fin (pi / 2)]
     = Inr [[Fin 0, Fin 0, Fin 1], [Fin 1, Fin 0, Fin 0], [Fin 0, Fin 1, Fin 0]]
   \<and> Rotzyx [Fin (- (pi / 2)), Fin 0, Fin (- (pi / 2))]
     = Inr [[Fin 0, Fin 0, Fin 1], [Fin (- 1), Fin 0, Fin 0], [Fin 0, Fin (- 1), Fin 0]]
   \<and> mat_T [[Fin 0, Fin 0, Fin 1], [Fin 1, Fin 0, Fin 0], [Fin 0, Fin 1, Fin 0]]
     \<noteq> [[Fin 0, Fin 0, Fin 1], [Fin (- 1), Fin 0, Fin 0], [Fin 0, Fin (- 1), Fin 0]]"
  by (simp add: Rotzyx_cons Rotx_def Roty_def Rotz_def mat_simps)

text \<open>
  C8.  For angles \<open>[phi, theta, psi]\<close> (index 0 roll, index 1 pitch, index 2
  yaw; further entries are ignored) \<open>Rotzyx\<close> returns the product
  \<open>Rotz psi * Roty theta * Rotx phi\<close>; on finite values, applying it to a
  vector applies the roll rotation first, then pitch, then yaw.
\<close>

theorem Rotzyx_composition:
  "Rotzyx (phi # theta # psi # rest) = Inr (matmul (matmul (Rotz psi) (Roty theta)) (Rotx phi))
   \<and> (\<exists>R. Rotzyx [Fin p, Fin t, Fin s] = Inr R
        \<and> matvec R [Fin x, Fin y, Fin z] =
            err_bind (matvec (Rotx (Fin p)) [Fin x, Fin y, Fin z]) (\<lambda>v1.
            err_bind (matvec (Roty (Fin t)) v1) (\<lambda>v2.
              matvec (Rotz (Fin s)) v2)))"
  by (simp add: Rotzyx_cons Rotx_def Roty_def Rotz_def mat_simps matvec_def err_bind_def
      algebra_simps)

text \<open>
  C9.  For every finite 3-vector \<open>x\<close>, \<open>Smat x\<close> is antisymmetric (its
  transpose is its negation) with a zero diagonal, and for every finite
  3-vector \<open>y\<close> the product \<open>Smat x @ y\<close> is the cross product of \<open>x\<close> and \<open>y\<close>.
\<close>

theorem Smat_cross_product:
  "\<exists>S. Smat [Fin x0, Fin x1, Fin x2] = Inr S
       \<and> mat_T S = map (map uminus) S
       \<and> S ! 0 ! 0 = Fin 0 \<and> S ! 1 ! 1 = Fin 0 \<and> S ! 2 ! 2 = Fin 0
       \<and> matvec S [Fin y0, Fin y1, Fin y2] = Inr (map Fin (cross3 [x0, x1, x2] [y0, y1, y2]))"
  by (simp add: Smat_def index_def err_bind_def mat_simps matvec_def cross3_def)

lemma Smat_Inr:
  "3 \<le> length x \<Longrightarrow>
     Smat x = Inr [[Fin 0, - (x ! 2), x ! 1], [x ! 2, Fin 0, - (x ! 0)], [- (x ! 1), x ! 0, Fin 0]]"
  by (auto simp: Smat_def index_def err_bind_def)

lemma Smat_Inl: "\<not> 3 \<le> length x \<Longrightarrow> Smat x = Inl IndexError"
  by (auto simp: Smat_def index_def err_bind_def)

text \<open>
  C2.  For every force, azimuth and location, \<open>forceAzi3\<close> fails where
  \<open>forceAzi6\<close> fails (a location of fewer than three entries), and otherwise
  returns the entries 0, 1 and 5 of the six that \<open>forceAzi6\<close> returns.
\<close>

theorem forceAzi3_selects:
  "case forceAzi6 force azi loc of
     Inl e \<Rightarrow> forceAzi3 force azi loc = Inl e
   | Inr tau6 \<Rightarrow> length tau6 = 6 \<and> forceAzi3 force azi loc = Inr [tau6 ! 0, tau6 ! 1, tau6 ! 5]"
proof (cases "3 \<le> length loc")
  case True
  then show ?thesis
    by (simp add: forceAzi3_def forceAzi6_def Smat_Inr err_bind_def Let_def Rotz_def
        matmul_def upt_rec matvec_def fancy_index_def)
next
  case False
  then show ?thesis
    by (simp add: forceAzi3_def forceAzi6_def Smat_Inl err_bind_def Let_def)
qed

theorem forceAzi3_selects_witness:
  "forceAzi6 (Fin 100) (Fin 0) [Fin (- 10), Fin 0, Fin 0]
     = Inr [Fin 100, Fin 0, Fin 0, Fin 0, Fin 0, Fin 0]
   \<and> forceAzi3 (Fin 100) (Fin 0) [Fin (- 10), Fin 0, Fin 0] = Inr [Fin 100, Fin 0, Fin 0]"
proof -
  have six: "forceAzi6 (Fin 100) (Fin 0) [Fin (- 10), Fin 0, Fin 0]
     = Inr [Fin 100, Fin 0, Fin 0, Fin 0, Fin 0, Fin 0]"
    by (simp add: forceAzi6_def Smat_Inr err_bind_def Let_def Rotz_def
        matmul_def upt_rec matvec_def)
  show ?thesis
    using forceAzi3_selects[of "Fin 100" "Fin 0" "[Fin (- 10), Fin 0, Fin 0]"]
    by (simp add: six)
qed

section \<open>Singular pitch and non-finite inputs\<close>

lemma Rotzyx_short: "length a < 3 \<Longrightarrow> Rotzyx a = Inl IndexError"
  by (auto simp: Rotzyx_def index_def err_bind_def)

lemma Rotzyx_long:
  "3 \<le> length a \<Longrightarrow>
     Rotzyx a = Inr (matmul (matmul (Rotz (a ! 2)) (Roty (a ! 1))) (Rotx (a ! 0)))"
  by (auto simp: Rotzyx_def index_def err_bind_def)

lemma rows_Rotzyx_product:
  "list_all (\<lambda>row. length row = n) (matmul (matmul (Rotz c) (Roty b)) (Rotx a)) = (n = 3)"
  by (auto simp: matmul_def Rotx_def Roty_def Rotz_def upt_rec)

lemma length_Rotzyx_product: "length (matmul (matmul (Rotz c) (Roty b)) (Rotx a)) = 3"
  by (simp add: matmul_def Rotz_def)

lemma dot_eta6_short_eta: "length eta < 6 \<Longrightarrow> dot_eta6 eta nu = Inl IndexError"
  by (simp add: dot_eta6_def Rotzyx_short slice_def err_bind_def)

lemma dot_eta6_short_nu:
  "6 \<le> length eta \<Longrightarrow> length nu < 6 \<Longrightarrow> dot_eta6 eta nu = Inl ValueError"
  by (auto simp: dot_eta6_def Rotzyx_long slice_def err_bind_def index_def
      Let_def matvec_def rows_Rotzyx_product)

lemma dot_eta6_long:
  "6 \<le> length eta \<Longrightarrow> 6 \<le> length nu \<Longrightarrow>
     \<exists>d. dot_eta6 eta nu = Inr d \<and> length d = length eta"
  by (auto simp: dot_eta6_def Rotzyx_long slice_def err_bind_def index_def
      Let_def matvec_def rows_Rotzyx_product length_Rotzyx_product)

text \<open>
  C1, amended.  \<open>dot_eta6\<close> makes no check of the pitch: it never fails with
  \<open>SingularTransform\<close>, and for every pose of at least six entries (whatever
  the pitch, so also at \<open>\<pi>/2\<close>) and every velocity of at least six entries it
  returns a vector of the length of the pose.
\<close>

theorem dot_eta6_no_singularity_check:
  "dot_eta6 eta nu \<noteq> Inl SingularTransform
   \<and> (6 \<le> length eta \<and> 6 \<le> length nu \<longrightarrow>
        (\<exists>d. dot_eta6 eta nu = Inr d \<and> length d = length eta))"
proof -
  consider "length eta < 6" | "6 \<le> length eta" "length nu < 6" | "6 \<le> length eta" "6 \<le> length nu"
    by linarith
  then show ?thesis
  proof cases
    case 1
    then show ?thesis by (simp add: dot_eta6_short_eta)
  next
    case 2
    then show ?thesis by (simp add: dot_eta6_short_nu)
  next
    case 3
    then show ?thesis using dot_eta6_long[of eta nu] by auto
  qed
qed

text \<open>
  At pitch \<open>\<pi>/2\<close>, in exact arithmetic, the cosine is zero and the division
  yields infinities, which the products and sums turn into NaN: the value is
  returned, not an error.  (In binary floating point the cosine of the nearest
  float to \<open>\<pi>/2\<close> is tiny but not zero, and the entries are huge instead.)
\<close>

lemma dot_eta6_pitch90_value:
  "dot_eta6 [Fin 0, Fin 0, Fin 0, Fin 0, Fin (pi / 2), Fin 0]
            [Fin 1, Fin 1, Fin 1, Fin 1, Fin 1, Fin 1]
     = Inr [Fin 1, Fin 1, Fin (- 1), NaN, Fin 1, NaN]"
  by (simp add: dot_eta6_def Rotzyx_long slice_def err_bind_def index_def
      Let_def matvec_def matmul_def Rotx_def Roty_def Rotz_def upt_rec)

text \<open>
  C1 as stated fails: at pitch \<open>\<pi>/2\<close> the call does not fail with
  \<open>SingularTransform\<close>.
\<close>

theorem dot_eta6_pitch90_counterexample:
  "dot_eta6 [Fin 0, Fin 0, Fin 0, Fin 0, Fin (pi / 2), Fin 0]
            [Fin 1, Fin 1, Fin 1, Fin 1, Fin 1, Fin 1] \<noteq> Inl SingularTransform"
  by (simp add: dot_eta6_pitch90_value)

theorem dot_eta6_no_singularity_check_witness:
  "6 \<le> length [Fin 0, Fin 0, Fin 0, Fin (pi / 4), Fin (pi / 2), Fin 0]
   \<and> 6 \<le> length [Fin 0, Fin 0, Fin 0, Fin 0, Fin 0, Fin 1]
   \<and> (\<exists>d. dot_eta6 [Fin 0, Fin 0, Fin 0, Fin (pi / 4), Fin (pi / 2), Fin 0]
                    [Fin 0, Fin 0, Fin 0, Fin 0, Fin 0, Fin 1] = Inr d
          \<and> length d = 6)"
  using dot_eta6_no_singularity_check
    [of "[Fin 0, Fin 0, Fin 0, Fin (pi / 4), Fin (pi / 2), Fin 0]"
        "[Fin 0, Fin 0, Fin 0, Fin 0, Fin 0, Fin 1]"]
  by (simp add: eval_nat_numeral)

text \<open>
  C5 as stated fails: on NaN, \<open>rad2pipi\<close> returns NaN, and \<open>RVGazimuth_man\<close>
  prints nothing and returns NaN forces.
\<close>

theorem nan_propagates_counterexample:
  "rad2pipi NaN = NaN \<and> RVGazimuth_man NaN NaN NaN NaN = Inr ([], NaN, NaN)"
  by (simp add: rad2pipi_def RVGazimuth_man_NaN)

lemma no_InvalidInput:
  "Rotzyx a \<noteq> Inl InvalidInput"
  "Smat x \<noteq> Inl InvalidInput"
  "dot_eta3 psi nu \<noteq> Inl InvalidInput"
  "dot_eta4 psi nu \<noteq> Inl InvalidInput"
  "dot_eta6 eta nu \<noteq> Inl InvalidInput"
  "forceAzi3 force azi loc \<noteq> Inl InvalidInput"
  "forceAzi6 force azi loc \<noteq> Inl InvalidInput"
  by (auto simp: Rotzyx_def Smat_def dot_eta3_def dot_eta4_def dot_eta6_def forceAzi3_def
      forceAzi6_def index_def err_bind_def matvec_def fancy_index_def Let_def
      split: sum.splits if_splits)

lemma nan_propagates:
  "rad2pipi NaN = NaN"
  "Rotx NaN = [[Fin 1, Fin 0, Fin 0], [Fin 0, NaN, NaN], [Fin 0, NaN, NaN]]"
  "Roty NaN = [[NaN, Fin 0, NaN], [Fin 0, Fin 1, Fin 0], [NaN, Fin 0, NaN]]"
  "Rotz NaN = [[NaN, NaN, Fin 0], [NaN, NaN, Fin 0], [Fin 0, Fin 0, Fin 1]]"
  "Rotzyx [NaN, NaN, NaN] = Inr [[NaN, NaN, NaN], [NaN, NaN, NaN], [NaN, NaN, NaN]]"
  "Rot_planar NaN = [[NaN, NaN], [NaN, NaN]]"
  "Smat [NaN, NaN, NaN] = Inr [[Fin 0, NaN, NaN], [NaN, Fin 0, NaN], [NaN, NaN, Fin 0]]"
  "dot_eta3 NaN [NaN, NaN, NaN] = Inr [NaN, NaN, NaN]"
  "dot_eta4 NaN [NaN, NaN, NaN, NaN] = Inr [NaN, NaN, NaN, NaN]"
  "dot_eta6 [NaN, NaN, NaN, NaN, NaN, NaN] [NaN, NaN, NaN, NaN, NaN, NaN]
     = Inr [NaN, NaN, NaN, NaN, NaN, NaN]"
  "forceAzi3 NaN NaN [NaN, NaN, NaN] = Inr [NaN, NaN, NaN]"
  "forceAzi6 NaN NaN [NaN, NaN, NaN] = Inr [NaN, NaN, NaN, NaN, NaN, NaN]"
  by (simp_all add: rad2pipi_def Rotx_def Roty_def Rotz_def Rotzyx_def Rot_planar_def Smat_def
      dot_eta3_def dot_eta4_def dot_eta6_def forceAzi3_def forceAzi6_def
      index_def slice_def err_bind_def matvec_def matmul_def fancy_index_def Let_def upt_rec
      minus_npfloat_def)

text \<open>
  C5, amended.  No transform of the library checks that its input is finite:
  on NaN input each of the thirteen returns a value with NaN propagated into
  it, and on no input does any of them fail with \<open>InvalidInput\<close>.
\<close>

theorem no_finiteness_check:
  "rad2pipi NaN = NaN
   \<and> Rotx NaN = [[Fin 1, Fin 0, Fin 0], [Fin 0, NaN, NaN], [Fin 0, NaN, NaN]]
   \<and> Roty NaN = [[NaN, Fin 0, NaN], [Fin 0, Fin 1, Fin 0], [NaN, Fin 0, NaN]]
   \<and> Rotz NaN = [[NaN, NaN, Fin 0], [NaN, NaN, Fin 0], [Fin 0, Fin 0, Fin 1]]
   \<and> Rotzyx [NaN, NaN, NaN] = Inr [[NaN, NaN, NaN], [NaN, NaN, NaN], [NaN, NaN, NaN]]
   \<and> Rot_planar NaN = [[NaN, NaN], [NaN, NaN]]
   \<and> Smat [NaN, NaN, NaN] = Inr [[Fin 0, NaN, NaN], [NaN, Fin 0, NaN], [NaN, NaN, Fin 0]]
   \<and> dot_eta3 NaN [NaN, NaN, NaN] = Inr [NaN, NaN, NaN]
   \<and> dot_eta4 NaN [NaN, NaN, NaN, NaN] = Inr [NaN, NaN, NaN, NaN]
   \<and> dot_eta6 [NaN, NaN, NaN, NaN, NaN, NaN] [NaN, NaN, NaN, NaN, NaN, NaN]
       = Inr [NaN, NaN, NaN, NaN, NaN, NaN]
   \<and> forceAzi3 NaN NaN [NaN, NaN, NaN] = Inr [NaN, NaN, NaN]
   \<and> forceAzi6 NaN NaN [NaN, NaN, NaN] = Inr [NaN, NaN, NaN, NaN, NaN, NaN]
   \<and> RVGazimuth_man NaN NaN NaN NaN = Inr ([], NaN, NaN)
   \<and> Rotzyx angles \<noteq> Inl InvalidInput
   \<and> Smat x \<noteq> Inl InvalidInput
   \<and> dot_eta3 psi nu3 \<noteq> Inl InvalidInput
   \<and> dot_eta4 psi nu4 \<noteq> Inl InvalidInput
   \<and> dot_eta6 eta nu6 \<noteq> Inl InvalidInput
   \<and> forceAzi3 force azi loc \<noteq> Inl InvalidInput
   \<and> forceAzi6 force azi loc \<noteq> Inl InvalidInput
   \<and> RVGazimuth_man u v angle revs \<noteq> Inl InvalidInput"
  by (simp only: nan_propagates no_InvalidInput RVGazimuth_man_NaN
      RVGazimuth_man_not_InvalidInput not_False_eq_True simp_thms)

end
